theory Spec2Isabelle
  imports Complex_Main "HOL-Library.Word"
begin

section \<open>Values, strings and diagnostics\<close>

text \<open>
  A C++ \<^verbatim>\<open>double\<close>. The code of \<^verbatim>\<open>sql/gis/srs/srs.cc\<close> never computes with
  doubles: it copies them and tests them with \<^verbatim>\<open>std::isnan\<close>. A double is therefore
  either the not-a-number sentinel or a number; infinities and the sign of zero are not
  told apart, since no operation of the code looks at them.
\<close>

datatype double = NaN | Num real

definition isnan :: "double \<Rightarrow> bool" where
  "isnan v = (v = NaN)"

text \<open>\<^verbatim>\<open>srid_t\<close> is an unsigned 32-bit integer.\<close>

type_synonym srid_t = "32 word"

text \<open>
  \<^verbatim>\<open>std::string::c_str()\<close> read as a C string: the bytes up to the first NUL.
\<close>

definition c_str :: "string \<Rightarrow> string" where
  "c_str s = takeWhile (\<lambda>c. c \<noteq> CHR 0x00) s"

text \<open>
  Modelled from the spec: \<^verbatim>\<open>my_strcasecmp\<close> and the case table of
  \<^verbatim>\<open>my_charset_latin1\<close> (\<^verbatim>\<open>m_ctype.h\<close>) are not among the sources. The spec
  says that two strings are compared case-insensitively; the table below folds the lower
  case letters of ISO 8859-1 onto their upper case letters. As in C, the result is
  \<open>False\<close> (zero) when the strings are equal and \<open>True\<close> (non-zero) when they differ, so
  that \<open>\<not> my_strcasecmp s t\<close> reads like \<^verbatim>\<open>!my_strcasecmp(cs, s, t)\<close>. Both arguments
  are C strings.
\<close>

definition to_upper_latin1 :: "char \<Rightarrow> char" where
  "to_upper_latin1 c =
     (let n = (of_char c :: nat)
      in if (97 \<le> n \<and> n \<le> 122) \<or> (224 \<le> n \<and> n \<le> 254 \<and> n \<noteq> 247)
         then char_of (n - 32) else c)"

definition my_strcasecmp :: "string \<Rightarrow> string \<Rightarrow> bool" where
  "my_strcasecmp s t = (map to_upper_latin1 s \<noteq> map to_upper_latin1 t)"

text \<open>\<^verbatim>\<open>std::to_string(int)\<close>: the decimal digits, with a minus sign when negative.\<close>

definition digit_char :: "nat \<Rightarrow> char" where
  "digit_char d = ''0123456789'' ! d"

function digits_of :: "nat \<Rightarrow> string" where
  "digits_of n =
     (if n < 10 then [digit_char n] else digits_of (n div 10) @ [digit_char (n mod 10)])"
  by pat_completeness auto
termination
  by (relation "measure id") auto

definition to_string :: "int \<Rightarrow> string" where
  "to_string i = (if i < 0 then CHR ''-'' # digits_of (nat (- i)) else digits_of (nat i))"

text \<open>
  \<^verbatim>\<open>std::stoi(str)\<close> (base 10, C locale): leading white space is skipped, an optional
  sign is read, then as many decimal digits as there are; what follows the digits is
  ignored. With no digit it throws \<^verbatim>\<open>std::invalid_argument\<close>, with a value outside
  the range of \<^verbatim>\<open>int\<close> it throws \<^verbatim>\<open>std::out_of_range\<close>: both are \<open>None\<close> here.
\<close>

definition isspace :: "char \<Rightarrow> bool" where
  "isspace c = (c \<in> set [CHR '' '', CHR 0x09, CHR 0x0A, CHR 0x0B, CHR 0x0C, CHR 0x0D])"

definition isdigit :: "char \<Rightarrow> bool" where
  "isdigit c = (c \<in> set ''0123456789'')"

definition digits_value :: "string \<Rightarrow> int" where
  "digits_value ds = foldl (\<lambda>acc c. acc * 10 + (int (of_char c) - 48)) 0 ds"

definition stoi :: "string \<Rightarrow> int option" where
  "stoi str =
     (let s = dropWhile isspace (c_str str);
          neg = (s \<noteq> [] \<and> hd s = CHR ''-'');
          s' = (if s \<noteq> [] \<and> (hd s = CHR ''-'' \<or> hd s = CHR ''+'') then tl s else s);
          ds = takeWhile isdigit s'
      in if ds = [] then None
         else let v = (if neg then - digits_value ds else digits_value ds)
              in if v < - 2147483648 \<or> 2147483647 < v then None else Some v)"

text \<open>
  The diagnostics channel: every \<^verbatim>\<open>my_error\<close> call appends one entry, which carries
  the arguments of the call.
\<close>

datatype diagnostic =
    ER_SRS_PARSE_ERROR srid_t
  | ER_SRS_PROJ_PARAMETER_MISSING srid_t string int

section \<open>The parse tree\<close>

text \<open>
  Modelled from the spec: the parse tree types of \<^verbatim>\<open>wkt_parser.h\<close> are not among the
  sources. The records below have the fields that section 6 of the specification lists and
  that \<^verbatim>\<open>srs.cc\<close> reads. A field that two structs share is prefixed with the struct
  it belongs to.
\<close>

datatype Axis_direction = UNSPECIFIED | NORTH | EAST | SOUTH | WEST | OTHER

record Authority =
  authority_name :: string
  authority_code :: string

record Spheroid =
  semi_major_axis :: double
  inverse_flattening :: double

record Towgs84 =
  towgs84_valid :: bool
  dx :: double
  dy :: double
  dz :: double
  ex :: double
  ey :: double
  ez :: double
  ppm :: double

record Datum =
  spheroid :: Spheroid
  towgs84 :: Towgs84

record Prime_meridian =
  longitude :: double

record Unit =
  conversion_factor :: double

record Axis =
  direction :: Axis_direction

record Twin_axes =
  axes_valid :: bool
  axes_x :: Axis
  axes_y :: Axis

record Geographic_cs =
  datum :: Datum
  prime_meridian :: Prime_meridian
  angular_unit :: Unit
  geographic_axes :: Twin_axes

record Projection =
  projection_authority :: Authority

record Projection_parameter =
  parameter_name :: string
  parameter_authority :: Authority
  parameter_value :: double

record Projected_cs =
  geographic_cs :: Geographic_cs
  projection :: Projection
  parameters :: "Projection_parameter list"
  linear_unit :: Unit
  projected_axes :: Twin_axes

datatype Coordinate_system =
    Projected_cs_node Projected_cs
  | Geographic_cs_node Geographic_cs

section \<open>The parameter extractor\<close>

text \<open>
  The two \<^verbatim>\<open>std::map<int, std::string>\<close> tables that \<^verbatim>\<open>set_parameters\<close> fills on
  entry, as association lists (no key occurs twice). \<open>map_at\<close> is
  \<^verbatim>\<open>std::map::operator[]\<close> as the function reads it: a key that is absent yields the
  empty string.
\<close>

definition param_names :: "(int \<times> string) list" where
  "param_names =
     [(1026, ''c1''),
      (1027, ''c2''),
      (1028, ''c3''),
      (1029, ''c4''),
      (1030, ''c5''),
      (1031, ''c6''),
      (1032, ''c7''),
      (1033, ''c8''),
      (1034, ''c9''),
      (1035, ''c10''),
      (1036, ''azimuth''),
      (1038, ''ellipsoid_scale_factor''),
      (1039, ''projection_plane_height_at_origin''),
      (8617, ''evaluation_point_ordinate_1''),
      (8618, ''evaluation_point_ordinate_2''),
      (8801, ''latitude_of_origin''),
      (8802, ''central_meridian''),
      (8805, ''scale_factor''),
      (8806, ''false_easting''),
      (8807, ''false_northing''),
      (8811, ''latitude_of_center''),
      (8812, ''longitude_of_center''),
      (8813, ''azimuth''),
      (8814, ''rectified_grid_angle''),
      (8815, ''scale_factor''),
      (8816, ''false_easting''),
      (8817, ''false_northing''),
      (8818, ''pseudo_standard_parallel_1''),
      (8819, ''scale_factor''),
      (8821, ''latitude_of_origin''),
      (8822, ''central_meridian''),
      (8823, ''standard_parallel_1''),
      (8824, ''standard_parallel_2''),
      (8826, ''false_easting''),
      (8827, ''false_northing''),
      (8830, ''initial_longitude''),
      (8831, ''zone_width''),
      (8832, ''standard_parallel''),
      (8833, ''longitude_of_center'')]"

definition param_aliases :: "(int \<times> string) list" where
  "param_aliases =
     [(8823, ''standard_parallel1''),
      (8824, ''standard_parallel2'')]"

definition map_at :: "(int \<times> string) list \<Rightarrow> int \<Rightarrow> string" where
  "map_at m k = (case map_of m k of None \<Rightarrow> [] | Some s \<Rightarrow> s)"

text \<open>
  A descriptor is a pair of an EPSG parameter code and a pointer to a double. The doubles
  that the pointers reach are a store \<open>'a \<Rightarrow> double\<close> from pointer targets to values; two
  descriptors may hold the same pointer.

  \<open>assign_parameter\<close> is the body of the inner loop of \<^verbatim>\<open>set_parameters\<close> for the
  parsed parameter \<open>i\<close> and the descriptor \<open>pj\<close> (\<^verbatim>\<open>params->at(j)\<close>).
\<close>

definition assign_parameter ::
  "Projection_parameter \<Rightarrow> int \<times> 'a \<Rightarrow> ('a \<Rightarrow> double) \<Rightarrow> ('a \<Rightarrow> double)" where
  "assign_parameter i pj mem =
     (if \<not> my_strcasecmp ''EPSG'' (c_str (authority_name (parameter_authority i))) then
        (if \<not> my_strcasecmp (c_str (to_string (fst pj)))
                (c_str (authority_code (parameter_authority i)))
         then mem(snd pj := parameter_value i)
         else mem)
      else if \<not> my_strcasecmp (c_str (map_at param_names (fst pj))) (c_str (parameter_name i))
      then mem(snd pj := parameter_value i)
      else if \<not> my_strcasecmp (c_str (map_at param_aliases (fst pj))) (c_str (parameter_name i))
      then mem(snd pj := parameter_value i)
      else mem)"

text \<open>The inner loop, over the descriptors, and the outer loop, over the parsed parameters.\<close>

primrec scan_descriptors ::
  "Projection_parameter \<Rightarrow> (int \<times> 'a) list \<Rightarrow> ('a \<Rightarrow> double) \<Rightarrow> ('a \<Rightarrow> double)" where
  "scan_descriptors i [] mem = mem"
| "scan_descriptors i (pj # rest) mem = scan_descriptors i rest (assign_parameter i pj mem)"

primrec scan_parameters ::
  "Projection_parameter list \<Rightarrow> (int \<times> 'a) list \<Rightarrow> ('a \<Rightarrow> double) \<Rightarrow> ('a \<Rightarrow> double)" where
  "scan_parameters [] params mem = mem"
| "scan_parameters (i # rest) params mem =
     scan_parameters rest params (scan_descriptors i params mem)"

text \<open>
  The loop after the scan: the first descriptor whose double is still not-a-number is
  reported, and the function returns at once.
\<close>

primrec check_mandatory ::
  "srid_t \<Rightarrow> (int \<times> 'a) list \<Rightarrow> ('a \<Rightarrow> double) \<Rightarrow> bool \<times> diagnostic list" where
  "check_mandatory srid [] mem = (False, [])"
| "check_mandatory srid (pj # rest) mem =
     (if isnan (mem (snd pj))
      then (True, [ER_SRS_PROJ_PARAMETER_MISSING srid (map_at param_names (fst pj)) (fst pj)])
      else check_mandatory srid rest mem)"

text \<open>
  \<^verbatim>\<open>set_parameters\<close> returns its failure flag, the store after the scan and the
  diagnostics it has reported.
\<close>

definition set_parameters ::
  "srid_t \<Rightarrow> Projected_cs \<Rightarrow> (int \<times> 'a) list \<Rightarrow> ('a \<Rightarrow> double)
     \<Rightarrow> bool \<times> ('a \<Rightarrow> double) \<times> diagnostic list" where
  "set_parameters srid proj params mem =
     (let mem' = scan_parameters (parameters proj) params mem;
          (res, diags) = check_mandatory srid params mem'
      in (res, mem', diags))"

section \<open>The SRS objects\<close>

text \<open>
  Modelled from the spec: the classes of \<^verbatim>\<open>srs.h\<close> are not among the sources.
  The members are those \<^verbatim>\<open>srs.cc\<close> assigns; the constructors seed every double
  with the not-a-number sentinel and every axis direction with \<open>UNSPECIFIED\<close>, as the
  specification says of a freshly constructed object (sections 3 and 4.5). The arrays
  \<^verbatim>\<open>m_towgs84[7]\<close> and \<^verbatim>\<open>m_axes[2]\<close> are lists of that length.
\<close>

record Geographic_srs =
  m_semi_major_axis :: double
  m_inverse_flattening :: double
  m_towgs84 :: "double list"
  m_prime_meridian :: double
  m_angular_unit :: double
  m_axes :: "Axis_direction list"

definition Geographic_srs_ctor :: Geographic_srs where
  "Geographic_srs_ctor =
     \<lparr>m_semi_major_axis = NaN,
      m_inverse_flattening = NaN,
      m_towgs84 = [NaN, NaN, NaN, NaN, NaN, NaN, NaN],
      m_prime_meridian = NaN,
      m_angular_unit = NaN,
      m_axes = [UNSPECIFIED, UNSPECIFIED]\<rparr>"

text \<open>
  \<^verbatim>\<open>Geographic_srs::init\<close>. The \<^verbatim>\<open>DBUG_ASSERT\<close>s are compiled out of a release
  build, so they are no part of the function below; \<open>Geographic_srs_init_asserts\<close>
  collects their conditions. Each assertion reads a member right after the assignment to
  it and no later statement assigns that member again, so the conditions are stated on
  the object the function returns.
\<close>

definition Geographic_srs_init ::
  "srid_t \<Rightarrow> Geographic_cs \<Rightarrow> Geographic_srs \<Rightarrow> bool \<times> Geographic_srs" where
  "Geographic_srs_init srid g this0 =
     (let this1 = this0\<lparr>m_semi_major_axis := semi_major_axis (spheroid (datum g)),
                        m_inverse_flattening := inverse_flattening (spheroid (datum g))\<rparr>;
          this2 = (if towgs84_valid (towgs84 (datum g))
                   then this1\<lparr>m_towgs84 := (m_towgs84 this1)
                          [0 := dx (towgs84 (datum g)),
                           1 := dy (towgs84 (datum g)),
                           2 := dz (towgs84 (datum g)),
                           3 := ex (towgs84 (datum g)),
                           4 := ey (towgs84 (datum g)),
                           5 := ez (towgs84 (datum g)),
                           6 := ppm (towgs84 (datum g))]\<rparr>
                   else this1);
          this3 = this2\<lparr>m_prime_meridian := longitude (prime_meridian g),
                        m_angular_unit := conversion_factor (angular_unit g)\<rparr>;
          this4 = (if axes_valid (geographic_axes g)
                   then this3\<lparr>Geographic_srs.m_axes := (Geographic_srs.m_axes this3)
                          [0 := direction (axes_x (geographic_axes g)),
                           1 := direction (axes_y (geographic_axes g))]\<rparr>
                   else this3)
      in (False, this4))"

definition Geographic_srs_init_asserts :: "Geographic_cs \<Rightarrow> Geographic_srs \<Rightarrow> bool" where
  "Geographic_srs_init_asserts g this =
     (\<not> isnan (m_semi_major_axis this) \<and>
      \<not> isnan (m_inverse_flattening this) \<and>
      (if towgs84_valid (towgs84 (datum g))
       then \<not> isnan (m_towgs84 this ! 0) \<and>
            \<not> isnan (m_towgs84 this ! 1) \<and>
            \<not> isnan (m_towgs84 this ! 2) \<and>
            \<not> isnan (m_towgs84 this ! 3) \<and>
            \<not> isnan (m_towgs84 this ! 4) \<and>
            \<not> isnan (m_towgs84 this ! 5) \<and>
            \<not> isnan (m_towgs84 this ! 6)
       else True) \<and>
      \<not> isnan (m_prime_meridian this) \<and>
      \<not> isnan (m_angular_unit this) \<and>
      (if axes_valid (geographic_axes g)
       then Geographic_srs.m_axes this ! 0 \<noteq> UNSPECIFIED \<and>
            Geographic_srs.m_axes this ! 1 \<noteq> UNSPECIFIED
       else True))"

text \<open>
  The base class of the projections, and the object of a projection class. The dynamic
  type of the object is \<open>dynamic_class\<close>; the doubles that the class declares are the
  store \<open>m_parameters\<close>, indexed by the name of the member.
\<close>

record Projected_srs =
  m_geographic_srs :: Geographic_srs
  m_linear_unit :: double
  m_axes :: "Axis_direction list"

datatype projection_class =
    Unknown_projected_srs
  | Popular_visualisation_pseudo_mercator_srs
  | Lambert_azimuthal_equal_area_spherical_srs
  | Equidistant_cylindrical_srs
  | Equidistant_cylindrical_spherical_srs
  | Krovak_north_orientated_srs
  | Krovak_modified_srs
  | Krovak_modified_north_orientated_srs
  | Lambert_conic_conformal_2sp_michigan_srs
  | Colombia_urban_srs
  | Lambert_conic_conformal_1sp_srs
  | Lambert_conic_conformal_2sp_srs
  | Lambert_conic_conformal_2sp_belgium_srs
  | Mercator_variant_a_srs
  | Mercator_variant_b_srs
  | Cassini_soldner_srs
  | Transverse_mercator_srs
  | Transverse_mercator_south_orientated_srs
  | Oblique_stereographic_srs
  | Polar_stereographic_variant_a_srs
  | New_zealand_map_grid_srs
  | Hotine_oblique_mercator_variant_a_srs
  | Laborde_oblique_mercator_srs
  | Hotine_oblique_mercator_variant_b_srs
  | Tunisia_mining_grid_srs
  | Lambert_conic_near_conformal_srs
  | American_polyconic_srs
  | Krovak_srs
  | Lambert_azimuthal_equal_area_srs
  | Albers_equal_area_srs
  | Transverse_mercator_zoned_grid_system_srs
  | Lambert_conic_conformal_west_orientated_srs
  | Bonne_south_orientated_srs
  | Polar_stereographic_variant_b_srs
  | Polar_stereographic_variant_c_srs
  | Guam_projection_srs
  | Modified_azimuthal_equidistant_srs
  | Hyperbolic_cassini_soldner_srs
  | Lambert_cylindrical_equal_area_spherical_srs
  | Lambert_cylindrical_equal_area_srs

datatype member =
    m_latitude_of_origin
  | m_longitude_of_origin
  | m_false_easting
  | m_false_northing
  | m_standard_parallel_1
  | m_latitude_of_center
  | m_longitude_of_center
  | m_azimuth
  | m_pseudo_standard_parallel_1
  | m_scale_factor
  | m_evaluation_point_ordinate_1
  | m_evaluation_point_ordinate_2
  | m_c1
  | m_c2
  | m_c3
  | m_c4
  | m_c5
  | m_c6
  | m_c7
  | m_c8
  | m_c9
  | m_c10
  | m_standard_parallel_2
  | m_ellipsoid_scale_factor
  | m_projection_plane_height_at_origin
  | m_rectified_grid_angle
  | m_initial_longitude
  | m_zone_width
  | m_standard_parallel

record Projection_srs = Projected_srs +
  dynamic_class :: projection_class
  m_parameters :: "member \<Rightarrow> double"

definition Projection_srs_ctor :: "projection_class \<Rightarrow> Projection_srs" where
  "Projection_srs_ctor cls =
     \<lparr>m_geographic_srs = Geographic_srs_ctor,
      m_linear_unit = NaN,
      m_axes = [UNSPECIFIED, UNSPECIFIED],
      dynamic_class = cls,
      m_parameters = (\<lambda>_. NaN)\<rparr>"

text \<open>\<^verbatim>\<open>Projected_srs::init\<close>, with its assertions apart as above.\<close>

definition Projected_srs_init ::
  "srid_t \<Rightarrow> Projected_cs \<Rightarrow> 'a Projected_srs_scheme \<Rightarrow> bool \<times> 'a Projected_srs_scheme" where
  "Projected_srs_init srid p this0 =
     (let (res, geo) = Geographic_srs_init srid (geographic_cs p) (m_geographic_srs this0);
          this1 = this0\<lparr>m_geographic_srs := geo\<rparr>;
          this2 = this1\<lparr>m_linear_unit := conversion_factor (linear_unit p)\<rparr>;
          this3 = (if axes_valid (projected_axes p)
                   then this2\<lparr>m_axes := (m_axes this2)
                          [0 := direction (axes_x (projected_axes p)),
                           1 := direction (axes_y (projected_axes p))]\<rparr>
                   else this2)
      in (res, this3))"

definition Projected_srs_init_asserts :: "Projected_cs \<Rightarrow> 'a Projected_srs_scheme \<Rightarrow> bool" where
  "Projected_srs_init_asserts p this =
     (\<not> isnan (m_linear_unit this) \<and>
      (if axes_valid (projected_axes p)
       then m_axes this ! 0 \<noteq> UNSPECIFIED \<and> m_axes this ! 1 \<noteq> UNSPECIFIED
       else True))"

definition Unknown_projected_srs_init ::
  "srid_t \<Rightarrow> Projected_cs \<Rightarrow> Projection_srs \<Rightarrow> bool \<times> Projection_srs \<times> diagnostic list" where
  "Unknown_projected_srs_init srid p this0 =
     (let (res, this1) = Projected_srs_init srid p this0 in (res, this1, []))"

text \<open>
  Every other \<^verbatim>\<open>init\<close> of a projection class fills a vector \<^verbatim>\<open>params\<close> of
  pairs of an EPSG code and a pointer to a member of the object and ends with the same
  three statements:
  \<^verbatim>\<open>bool res= Projected_srs::init(srid, p); res|= set_parameters(srid, p, &params); return res;\<close>
  \<open>init_parameters\<close> is these three statements; \<^verbatim>\<open>|=\<close> does not short-circuit, so
  \<^verbatim>\<open>set_parameters\<close> runs whatever the base class returned.
\<close>

definition init_parameters ::
  "(int \<times> member) list \<Rightarrow> srid_t \<Rightarrow> Projected_cs \<Rightarrow> Projection_srs
     \<Rightarrow> bool \<times> Projection_srs \<times> diagnostic list" where
  "init_parameters params srid p this0 =
     (let (res, this1) = Projected_srs_init srid p this0;
          (res', mem, diags) = set_parameters srid p params (m_parameters this1)
      in (res \<or> res', this1\<lparr>m_parameters := mem\<rparr>, diags))"

definition Popular_visualisation_pseudo_mercator_srs_params :: "(int \<times> member) list" where
  "Popular_visualisation_pseudo_mercator_srs_params =
     [(8801, m_latitude_of_origin),
      (8802, m_longitude_of_origin),
      (8806, m_false_easting),
      (8807, m_false_northing)]"

definition Popular_visualisation_pseudo_mercator_srs_init ::
  "srid_t \<Rightarrow> Projected_cs \<Rightarrow> Projection_srs \<Rightarrow> bool \<times> Projection_srs \<times> diagnostic list" where
  "Popular_visualisation_pseudo_mercator_srs_init = init_parameters Popular_visualisation_pseudo_mercator_srs_params"

definition Lambert_azimuthal_equal_area_spherical_srs_params :: "(int \<times> member) list" where
  "Lambert_azimuthal_equal_area_spherical_srs_params =
     [(8801, m_latitude_of_origin),
      (8802, m_longitude_of_origin),
      (8806, m_false_easting),
      (8807, m_false_northing)]"

definition Lambert_azimuthal_equal_area_spherical_srs_init ::
  "srid_t \<Rightarrow> Projected_cs \<Rightarrow> Projection_srs \<Rightarrow> bool \<times> Projection_srs \<times> diagnostic list" where
  "Lambert_azimuthal_equal_area_spherical_srs_init = init_parameters Lambert_azimuthal_equal_area_spherical_srs_params"

definition Equidistant_cylindrical_srs_params :: "(int \<times> member) list" where
  "Equidistant_cylindrical_srs_params =
     [(8823, m_standard_parallel_1),
      (8802, m_longitude_of_origin),
      (8806, m_false_easting),
      (8807, m_false_northing)]"

definition Equidistant_cylindrical_srs_init ::
  "srid_t \<Rightarrow> Projected_cs \<Rightarrow> Projection_srs \<Rightarrow> bool \<times> Projection_srs \<times> diagnostic list" where
  "Equidistant_cylindrical_srs_init = init_parameters Equidistant_cylindrical_srs_params"

definition Equidistant_cylindrical_spherical_srs_params :: "(int \<times> member) list" where
  "Equidistant_cylindrical_spherical_srs_params =
     [(8823, m_standard_parallel_1),
      (8802, m_longitude_of_origin),
      (8806, m_false_easting),
      (8807, m_false_northing)]"

definition Equidistant_cylindrical_spherical_srs_init ::
  "srid_t \<Rightarrow> Projected_cs \<Rightarrow> Projection_srs \<Rightarrow> bool \<times> Projection_srs \<times> diagnostic list" where
  "Equidistant_cylindrical_spherical_srs_init = init_parameters Equidistant_cylindrical_spherical_srs_params"

definition Krovak_north_orientated_srs_params :: "(int \<times> member) list" where
  "Krovak_north_orientated_srs_params =
     [(8811, m_latitude_of_center),
      (8833, m_longitude_of_center),
      (1036, m_azimuth),
      (8818, m_pseudo_standard_parallel_1),
      (8819, m_scale_factor),
      (8806, m_false_easting),
      (8807, m_false_northing)]"

definition Krovak_north_orientated_srs_init ::
  "srid_t \<Rightarrow> Projected_cs \<Rightarrow> Projection_srs \<Rightarrow> bool \<times> Projection_srs \<times> diagnostic list" where
  "Krovak_north_orientated_srs_init = init_parameters Krovak_north_orientated_srs_params"

definition Krovak_modified_srs_params :: "(int \<times> member) list" where
  "Krovak_modified_srs_params =
     [(8811, m_latitude_of_center),
      (8833, m_longitude_of_center),
      (1036, m_azimuth),
      (8818, m_pseudo_standard_parallel_1),
      (8819, m_scale_factor),
      (8806, m_false_easting),
      (8807, m_false_northing),
      (8617, m_evaluation_point_ordinate_1),
      (8618, m_evaluation_point_ordinate_2),
      (1026, m_c1),
      (1027, m_c2),
      (1028, m_c3),
      (1029, m_c4),
      (1030, m_c5),
      (1031, m_c6),
      (1032, m_c7),
      (1033, m_c8),
      (1034, m_c9),
      (1035, m_c10)]"

definition Krovak_modified_srs_init ::
  "srid_t \<Rightarrow> Projected_cs \<Rightarrow> Projection_srs \<Rightarrow> bool \<times> Projection_srs \<times> diagnostic list" where
  "Krovak_modified_srs_init = init_parameters Krovak_modified_srs_params"

definition Krovak_modified_north_orientated_srs_params :: "(int \<times> member) list" where
  "Krovak_modified_north_orientated_srs_params =
     [(8811, m_latitude_of_center),
      (8833, m_longitude_of_center),
      (1036, m_azimuth),
      (8818, m_pseudo_standard_parallel_1),
      (8819, m_scale_factor),
      (8806, m_false_easting),
      (8807, m_false_northing),
      (8617, m_evaluation_point_ordinate_1),
      (8618, m_evaluation_point_ordinate_2),
      (1026, m_c1),
      (1027, m_c2),
      (1028, m_c3),
      (1029, m_c4),
      (1030, m_c5),
      (1031, m_c6),
      (1032, m_c7),
      (1033, m_c8),
      (1034, m_c9),
      (1035, m_c10)]"

definition Krovak_modified_north_orientated_srs_init ::
  "srid_t \<Rightarrow> Projected_cs \<Rightarrow> Projection_srs \<Rightarrow> bool \<times> Projection_srs \<times> diagnostic list" where
  "Krovak_modified_north_orientated_srs_init = init_parameters Krovak_modified_north_orientated_srs_params"

definition Lambert_conic_conformal_2sp_michigan_srs_params :: "(int \<times> member) list" where
  "Lambert_conic_conformal_2sp_michigan_srs_params =
     [(8821, m_latitude_of_origin),
      (8822, m_longitude_of_origin),
      (8823, m_standard_parallel_1),
      (8824, m_standard_parallel_2),
      (8826, m_false_easting),
      (8827, m_false_northing),
      (1038, m_ellipsoid_scale_factor)]"

definition Lambert_conic_conformal_2sp_michigan_srs_init ::
  "srid_t \<Rightarrow> Projected_cs \<Rightarrow> Projection_srs \<Rightarrow> bool \<times> Projection_srs \<times> diagnostic list" where
  "Lambert_conic_conformal_2sp_michigan_srs_init = init_parameters Lambert_conic_conformal_2sp_michigan_srs_params"

definition Colombia_urban_srs_params :: "(int \<times> member) list" where
  "Colombia_urban_srs_params =
     [(8801, m_latitude_of_origin),
      (8802, m_longitude_of_origin),
      (8806, m_false_easting),
      (8807, m_false_northing),
      (1039, m_projection_plane_height_at_origin)]"

definition Colombia_urban_srs_init ::
  "srid_t \<Rightarrow> Projected_cs \<Rightarrow> Projection_srs \<Rightarrow> bool \<times> Projection_srs \<times> diagnostic list" where
  "Colombia_urban_srs_init = init_parameters Colombia_urban_srs_params"

definition Lambert_conic_conformal_1sp_srs_params :: "(int \<times> member) list" where
  "Lambert_conic_conformal_1sp_srs_params =
     [(8801, m_latitude_of_origin),
      (8802, m_longitude_of_origin),
      (8805, m_scale_factor),
      (8806, m_false_easting),
      (8807, m_false_northing)]"

definition Lambert_conic_conformal_1sp_srs_init ::
  "srid_t \<Rightarrow> Projected_cs \<Rightarrow> Projection_srs \<Rightarrow> bool \<times> Projection_srs \<times> diagnostic list" where
  "Lambert_conic_conformal_1sp_srs_init = init_parameters Lambert_conic_conformal_1sp_srs_params"

definition Lambert_conic_conformal_2sp_srs_params :: "(int \<times> member) list" where
  "Lambert_conic_conformal_2sp_srs_params =
     [(8821, m_latitude_of_origin),
      (8822, m_longitude_of_origin),
      (8823, m_standard_parallel_1),
      (8824, m_standard_parallel_2),
      (8826, m_false_easting),
      (8827, m_false_northing)]"

definition Lambert_conic_conformal_2sp_srs_init ::
  "srid_t \<Rightarrow> Projected_cs \<Rightarrow> Projection_srs \<Rightarrow> bool \<times> Projection_srs \<times> diagnostic list" where
  "Lambert_conic_conformal_2sp_srs_init = init_parameters Lambert_conic_conformal_2sp_srs_params"

definition Lambert_conic_conformal_2sp_belgium_srs_params :: "(int \<times> member) list" where
  "Lambert_conic_conformal_2sp_belgium_srs_params =
     [(8821, m_latitude_of_origin),
      (8822, m_longitude_of_origin),
      (8823, m_standard_parallel_1),
      (8824, m_standard_parallel_2),
      (8826, m_false_easting),
      (8827, m_false_northing)]"

definition Lambert_conic_conformal_2sp_belgium_srs_init ::
  "srid_t \<Rightarrow> Projected_cs \<Rightarrow> Projection_srs \<Rightarrow> bool \<times> Projection_srs \<times> diagnostic list" where
  "Lambert_conic_conformal_2sp_belgium_srs_init = init_parameters Lambert_conic_conformal_2sp_belgium_srs_params"

definition Mercator_variant_a_srs_params :: "(int \<times> member) list" where
  "Mercator_variant_a_srs_params =
     [(8801, m_latitude_of_origin),
      (8802, m_longitude_of_origin),
      (8805, m_scale_factor),
      (8806, m_false_easting),
      (8807, m_false_northing)]"

definition Mercator_variant_a_srs_init ::
  "srid_t \<Rightarrow> Projected_cs \<Rightarrow> Projection_srs \<Rightarrow> bool \<times> Projection_srs \<times> diagnostic list" where
  "Mercator_variant_a_srs_init = init_parameters Mercator_variant_a_srs_params"

definition Mercator_variant_b_srs_params :: "(int \<times> member) list" where
  "Mercator_variant_b_srs_params =
     [(8823, m_standard_parallel_1),
      (8802, m_longitude_of_origin),
      (8806, m_false_easting),
      (8807, m_false_northing)]"

definition Mercator_variant_b_srs_init ::
  "srid_t \<Rightarrow> Projected_cs \<Rightarrow> Projection_srs \<Rightarrow> bool \<times> Projection_srs \<times> diagnostic list" where
  "Mercator_variant_b_srs_init = init_parameters Mercator_variant_b_srs_params"

definition Cassini_soldner_srs_params :: "(int \<times> member) list" where
  "Cassini_soldner_srs_params =
     [(8801, m_latitude_of_origin),
      (8802, m_longitude_of_origin),
      (8806, m_false_easting),
      (8807, m_false_northing)]"

definition Cassini_soldner_srs_init ::
  "srid_t \<Rightarrow> Projected_cs \<Rightarrow> Projection_srs \<Rightarrow> bool \<times> Projection_srs \<times> diagnostic list" where
  "Cassini_soldner_srs_init = init_parameters Cassini_soldner_srs_params"

definition Transverse_mercator_srs_params :: "(int \<times> member) list" where
  "Transverse_mercator_srs_params =
     [(8801, m_latitude_of_origin),
      (8802, m_longitude_of_origin),
      (8805, m_scale_factor),
      (8806, m_false_easting),
      (8807, m_false_northing)]"

definition Transverse_mercator_srs_init ::
  "srid_t \<Rightarrow> Projected_cs \<Rightarrow> Projection_srs \<Rightarrow> bool \<times> Projection_srs \<times> diagnostic list" where
  "Transverse_mercator_srs_init = init_parameters Transverse_mercator_srs_params"

definition Transverse_mercator_south_orientated_srs_params :: "(int \<times> member) list" where
  "Transverse_mercator_south_orientated_srs_params =
     [(8801, m_latitude_of_origin),
      (8802, m_longitude_of_origin),
      (8805, m_scale_factor),
      (8806, m_false_easting),
      (8807, m_false_northing)]"

definition Transverse_mercator_south_orientated_srs_init ::
  "srid_t \<Rightarrow> Projected_cs \<Rightarrow> Projection_srs \<Rightarrow> bool \<times> Projection_srs \<times> diagnostic list" where
  "Transverse_mercator_south_orientated_srs_init = init_parameters Transverse_mercator_south_orientated_srs_params"

definition Oblique_stereographic_srs_params :: "(int \<times> member) list" where
  "Oblique_stereographic_srs_params =
     [(8801, m_latitude_of_origin),
      (8802, m_longitude_of_origin),
      (8805, m_scale_factor),
      (8806, m_false_easting),
      (8807, m_false_northing)]"

definition Oblique_stereographic_srs_init ::
  "srid_t \<Rightarrow> Projected_cs \<Rightarrow> Projection_srs \<Rightarrow> bool \<times> Projection_srs \<times> diagnostic list" where
  "Oblique_stereographic_srs_init = init_parameters Oblique_stereographic_srs_params"

definition Polar_stereographic_variant_a_srs_params :: "(int \<times> member) list" where
  "Polar_stereographic_variant_a_srs_params =
     [(8801, m_latitude_of_origin),
      (8802, m_longitude_of_origin),
      (8805, m_scale_factor),
      (8806, m_false_easting),
      (8807, m_false_northing)]"

definition Polar_stereographic_variant_a_srs_init ::
  "srid_t \<Rightarrow> Projected_cs \<Rightarrow> Projection_srs \<Rightarrow> bool \<times> Projection_srs \<times> diagnostic list" where
  "Polar_stereographic_variant_a_srs_init = init_parameters Polar_stereographic_variant_a_srs_params"

definition New_zealand_map_grid_srs_params :: "(int \<times> member) list" where
  "New_zealand_map_grid_srs_params =
     [(8801, m_latitude_of_origin),
      (8802, m_longitude_of_origin),
      (8806, m_false_easting),
      (8807, m_false_northing)]"

definition New_zealand_map_grid_srs_init ::
  "srid_t \<Rightarrow> Projected_cs \<Rightarrow> Projection_srs \<Rightarrow> bool \<times> Projection_srs \<times> diagnostic list" where
  "New_zealand_map_grid_srs_init = init_parameters New_zealand_map_grid_srs_params"

definition Hotine_oblique_mercator_variant_a_srs_params :: "(int \<times> member) list" where
  "Hotine_oblique_mercator_variant_a_srs_params =
     [(8811, m_latitude_of_center),
      (8812, m_longitude_of_center),
      (8813, m_azimuth),
      (8814, m_rectified_grid_angle),
      (8815, m_scale_factor),
      (8806, m_false_easting),
      (8807, m_false_northing)]"

definition Hotine_oblique_mercator_variant_a_srs_init ::
  "srid_t \<Rightarrow> Projected_cs \<Rightarrow> Projection_srs \<Rightarrow> bool \<times> Projection_srs \<times> diagnostic list" where
  "Hotine_oblique_mercator_variant_a_srs_init = init_parameters Hotine_oblique_mercator_variant_a_srs_params"

definition Laborde_oblique_mercator_srs_params :: "(int \<times> member) list" where
  "Laborde_oblique_mercator_srs_params =
     [(8811, m_latitude_of_center),
      (8812, m_longitude_of_center),
      (8813, m_azimuth),
      (8815, m_scale_factor),
      (8806, m_false_easting),
      (8807, m_false_northing)]"

definition Laborde_oblique_mercator_srs_init ::
  "srid_t \<Rightarrow> Projected_cs \<Rightarrow> Projection_srs \<Rightarrow> bool \<times> Projection_srs \<times> diagnostic list" where
  "Laborde_oblique_mercator_srs_init = init_parameters Laborde_oblique_mercator_srs_params"

definition Hotine_oblique_mercator_variant_b_srs_params :: "(int \<times> member) list" where
  "Hotine_oblique_mercator_variant_b_srs_params =
     [(8811, m_latitude_of_center),
      (8812, m_longitude_of_center),
      (8813, m_azimuth),
      (8814, m_rectified_grid_angle),
      (8815, m_scale_factor),
      (8816, m_false_easting),
      (8817, m_false_northing)]"

definition Hotine_oblique_mercator_variant_b_srs_init ::
  "srid_t \<Rightarrow> Projected_cs \<Rightarrow> Projection_srs \<Rightarrow> bool \<times> Projection_srs \<times> diagnostic list" where
  "Hotine_oblique_mercator_variant_b_srs_init = init_parameters Hotine_oblique_mercator_variant_b_srs_params"

definition Tunisia_mining_grid_srs_params :: "(int \<times> member) list" where
  "Tunisia_mining_grid_srs_params =
     [(8821, m_latitude_of_origin),
      (8822, m_longitude_of_origin),
      (8826, m_false_easting),
      (8827, m_false_northing)]"

definition Tunisia_mining_grid_srs_init ::
  "srid_t \<Rightarrow> Projected_cs \<Rightarrow> Projection_srs \<Rightarrow> bool \<times> Projection_srs \<times> diagnostic list" where
  "Tunisia_mining_grid_srs_init = init_parameters Tunisia_mining_grid_srs_params"

definition Lambert_conic_near_conformal_srs_params :: "(int \<times> member) list" where
  "Lambert_conic_near_conformal_srs_params =
     [(8801, m_latitude_of_origin),
      (8802, m_longitude_of_origin),
      (8805, m_scale_factor),
      (8806, m_false_easting),
      (8807, m_false_northing)]"

definition Lambert_conic_near_conformal_srs_init ::
  "srid_t \<Rightarrow> Projected_cs \<Rightarrow> Projection_srs \<Rightarrow> bool \<times> Projection_srs \<times> diagnostic list" where
  "Lambert_conic_near_conformal_srs_init = init_parameters Lambert_conic_near_conformal_srs_params"

definition American_polyconic_srs_params :: "(int \<times> member) list" where
  "American_polyconic_srs_params =
     [(8801, m_latitude_of_origin),
      (8802, m_longitude_of_origin),
      (8806, m_false_easting),
      (8807, m_false_northing)]"

definition American_polyconic_srs_init ::
  "srid_t \<Rightarrow> Projected_cs \<Rightarrow> Projection_srs \<Rightarrow> bool \<times> Projection_srs \<times> diagnostic list" where
  "American_polyconic_srs_init = init_parameters American_polyconic_srs_params"

definition Krovak_srs_params :: "(int \<times> member) list" where
  "Krovak_srs_params =
     [(8811, m_latitude_of_center),
      (8833, m_longitude_of_center),
      (1036, m_azimuth),
      (8818, m_pseudo_standard_parallel_1),
      (8819, m_scale_factor),
      (8806, m_false_easting),
      (8807, m_false_northing)]"

definition Krovak_srs_init ::
  "srid_t \<Rightarrow> Projected_cs \<Rightarrow> Projection_srs \<Rightarrow> bool \<times> Projection_srs \<times> diagnostic list" where
  "Krovak_srs_init = init_parameters Krovak_srs_params"

definition Lambert_azimuthal_equal_area_srs_params :: "(int \<times> member) list" where
  "Lambert_azimuthal_equal_area_srs_params =
     [(8801, m_latitude_of_origin),
      (8802, m_longitude_of_origin),
      (8806, m_false_easting),
      (8807, m_false_northing)]"

definition Lambert_azimuthal_equal_area_srs_init ::
  "srid_t \<Rightarrow> Projected_cs \<Rightarrow> Projection_srs \<Rightarrow> bool \<times> Projection_srs \<times> diagnostic list" where
  "Lambert_azimuthal_equal_area_srs_init = init_parameters Lambert_azimuthal_equal_area_srs_params"

definition Albers_equal_area_srs_params :: "(int \<times> member) list" where
  "Albers_equal_area_srs_params =
     [(8821, m_latitude_of_origin),
      (8822, m_longitude_of_origin),
      (8823, m_standard_parallel_1),
      (8824, m_standard_parallel_2),
      (8826, m_false_easting),
      (8827, m_false_northing)]"

definition Albers_equal_area_srs_init ::
  "srid_t \<Rightarrow> Projected_cs \<Rightarrow> Projection_srs \<Rightarrow> bool \<times> Projection_srs \<times> diagnostic list" where
  "Albers_equal_area_srs_init = init_parameters Albers_equal_area_srs_params"

definition Transverse_mercator_zoned_grid_system_srs_params :: "(int \<times> member) list" where
  "Transverse_mercator_zoned_grid_system_srs_params =
     [(8801, m_latitude_of_origin),
      (8830, m_initial_longitude),
      (8831, m_zone_width),
      (8805, m_scale_factor),
      (8806, m_false_easting),
      (8807, m_false_northing)]"

definition Transverse_mercator_zoned_grid_system_srs_init ::
  "srid_t \<Rightarrow> Projected_cs \<Rightarrow> Projection_srs \<Rightarrow> bool \<times> Projection_srs \<times> diagnostic list" where
  "Transverse_mercator_zoned_grid_system_srs_init = init_parameters Transverse_mercator_zoned_grid_system_srs_params"

definition Lambert_conic_conformal_west_orientated_srs_params :: "(int \<times> member) list" where
  "Lambert_conic_conformal_west_orientated_srs_params =
     [(8801, m_latitude_of_origin),
      (8802, m_longitude_of_origin),
      (8805, m_scale_factor),
      (8806, m_false_easting),
      (8807, m_false_northing)]"

definition Lambert_conic_conformal_west_orientated_srs_init ::
  "srid_t \<Rightarrow> Projected_cs \<Rightarrow> Projection_srs \<Rightarrow> bool \<times> Projection_srs \<times> diagnostic list" where
  "Lambert_conic_conformal_west_orientated_srs_init = init_parameters Lambert_conic_conformal_west_orientated_srs_params"

definition Bonne_south_orientated_srs_params :: "(int \<times> member) list" where
  "Bonne_south_orientated_srs_params =
     [(8801, m_latitude_of_origin),
      (8802, m_longitude_of_origin),
      (8806, m_false_easting),
      (8807, m_false_northing)]"

definition Bonne_south_orientated_srs_init ::
  "srid_t \<Rightarrow> Projected_cs \<Rightarrow> Projection_srs \<Rightarrow> bool \<times> Projection_srs \<times> diagnostic list" where
  "Bonne_south_orientated_srs_init = init_parameters Bonne_south_orientated_srs_params"

definition Polar_stereographic_variant_b_srs_params :: "(int \<times> member) list" where
  "Polar_stereographic_variant_b_srs_params =
     [(8832, m_standard_parallel),
      (8833, m_longitude_of_origin),
      (8806, m_false_easting),
      (8807, m_false_northing)]"

definition Polar_stereographic_variant_b_srs_init ::
  "srid_t \<Rightarrow> Projected_cs \<Rightarrow> Projection_srs \<Rightarrow> bool \<times> Projection_srs \<times> diagnostic list" where
  "Polar_stereographic_variant_b_srs_init = init_parameters Polar_stereographic_variant_b_srs_params"

definition Polar_stereographic_variant_c_srs_params :: "(int \<times> member) list" where
  "Polar_stereographic_variant_c_srs_params =
     [(8832, m_standard_parallel),
      (8833, m_longitude_of_origin),
      (8826, m_false_easting),
      (8827, m_false_northing)]"

definition Polar_stereographic_variant_c_srs_init ::
  "srid_t \<Rightarrow> Projected_cs \<Rightarrow> Projection_srs \<Rightarrow> bool \<times> Projection_srs \<times> diagnostic list" where
  "Polar_stereographic_variant_c_srs_init = init_parameters Polar_stereographic_variant_c_srs_params"

definition Guam_projection_srs_params :: "(int \<times> member) list" where
  "Guam_projection_srs_params =
     [(8801, m_latitude_of_origin),
      (8802, m_longitude_of_origin),
      (8806, m_false_easting),
      (8807, m_false_northing)]"

definition Guam_projection_srs_init ::
  "srid_t \<Rightarrow> Projected_cs \<Rightarrow> Projection_srs \<Rightarrow> bool \<times> Projection_srs \<times> diagnostic list" where
  "Guam_projection_srs_init = init_parameters Guam_projection_srs_params"

definition Modified_azimuthal_equidistant_srs_params :: "(int \<times> member) list" where
  "Modified_azimuthal_equidistant_srs_params =
     [(8801, m_latitude_of_origin),
      (8802, m_longitude_of_origin),
      (8806, m_false_easting),
      (8807, m_false_northing)]"

definition Modified_azimuthal_equidistant_srs_init ::
  "srid_t \<Rightarrow> Projected_cs \<Rightarrow> Projection_srs \<Rightarrow> bool \<times> Projection_srs \<times> diagnostic list" where
  "Modified_azimuthal_equidistant_srs_init = init_parameters Modified_azimuthal_equidistant_srs_params"

definition Hyperbolic_cassini_soldner_srs_params :: "(int \<times> member) list" where
  "Hyperbolic_cassini_soldner_srs_params =
     [(8801, m_latitude_of_origin),
      (8802, m_longitude_of_origin),
      (8806, m_false_easting),
      (8807, m_false_northing)]"

definition Hyperbolic_cassini_soldner_srs_init ::
  "srid_t \<Rightarrow> Projected_cs \<Rightarrow> Projection_srs \<Rightarrow> bool \<times> Projection_srs \<times> diagnostic list" where
  "Hyperbolic_cassini_soldner_srs_init = init_parameters Hyperbolic_cassini_soldner_srs_params"

definition Lambert_cylindrical_equal_area_spherical_srs_params :: "(int \<times> member) list" where
  "Lambert_cylindrical_equal_area_spherical_srs_params =
     [(8823, m_standard_parallel_1),
      (8802, m_longitude_of_origin),
      (8806, m_false_easting),
      (8807, m_false_northing)]"

definition Lambert_cylindrical_equal_area_spherical_srs_init ::
  "srid_t \<Rightarrow> Projected_cs \<Rightarrow> Projection_srs \<Rightarrow> bool \<times> Projection_srs \<times> diagnostic list" where
  "Lambert_cylindrical_equal_area_spherical_srs_init = init_parameters Lambert_cylindrical_equal_area_spherical_srs_params"

definition Lambert_cylindrical_equal_area_srs_params :: "(int \<times> member) list" where
  "Lambert_cylindrical_equal_area_srs_params =
     [(8823, m_standard_parallel_1),
      (8802, m_longitude_of_origin),
      (8806, m_false_easting),
      (8807, m_false_northing)]"

definition Lambert_cylindrical_equal_area_srs_init ::
  "srid_t \<Rightarrow> Projected_cs \<Rightarrow> Projection_srs \<Rightarrow> bool \<times> Projection_srs \<times> diagnostic list" where
  "Lambert_cylindrical_equal_area_srs_init = init_parameters Lambert_cylindrical_equal_area_srs_params"

text \<open>The virtual call \<^verbatim>\<open>(*srs)->init(srid, proj)\<close>: the dynamic type selects the function.\<close>

definition init_virtual ::
  "srid_t \<Rightarrow> Projected_cs \<Rightarrow> Projection_srs \<Rightarrow> bool \<times> Projection_srs \<times> diagnostic list" where
  "init_virtual srid p this =
     (case dynamic_class this of
        Unknown_projected_srs \<Rightarrow> Unknown_projected_srs_init srid p this
      | Popular_visualisation_pseudo_mercator_srs \<Rightarrow> Popular_visualisation_pseudo_mercator_srs_init srid p this
      | Lambert_azimuthal_equal_area_spherical_srs \<Rightarrow> Lambert_azimuthal_equal_area_spherical_srs_init srid p this
      | Equidistant_cylindrical_srs \<Rightarrow> Equidistant_cylindrical_srs_init srid p this
      | Equidistant_cylindrical_spherical_srs \<Rightarrow> Equidistant_cylindrical_spherical_srs_init srid p this
      | Krovak_north_orientated_srs \<Rightarrow> Krovak_north_orientated_srs_init srid p this
      | Krovak_modified_srs \<Rightarrow> Krovak_modified_srs_init srid p this
      | Krovak_modified_north_orientated_srs \<Rightarrow> Krovak_modified_north_orientated_srs_init srid p this
      | Lambert_conic_conformal_2sp_michigan_srs \<Rightarrow> Lambert_conic_conformal_2sp_michigan_srs_init srid p this
      | Colombia_urban_srs \<Rightarrow> Colombia_urban_srs_init srid p this
      | Lambert_conic_conformal_1sp_srs \<Rightarrow> Lambert_conic_conformal_1sp_srs_init srid p this
      | Lambert_conic_conformal_2sp_srs \<Rightarrow> Lambert_conic_conformal_2sp_srs_init srid p this
      | Lambert_conic_conformal_2sp_belgium_srs \<Rightarrow> Lambert_conic_conformal_2sp_belgium_srs_init srid p this
      | Mercator_variant_a_srs \<Rightarrow> Mercator_variant_a_srs_init srid p this
      | Mercator_variant_b_srs \<Rightarrow> Mercator_variant_b_srs_init srid p this
      | Cassini_soldner_srs \<Rightarrow> Cassini_soldner_srs_init srid p this
      | Transverse_mercator_srs \<Rightarrow> Transverse_mercator_srs_init srid p this
      | Transverse_mercator_south_orientated_srs \<Rightarrow> Transverse_mercator_south_orientated_srs_init srid p this
      | Oblique_stereographic_srs \<Rightarrow> Oblique_stereographic_srs_init srid p this
      | Polar_stereographic_variant_a_srs \<Rightarrow> Polar_stereographic_variant_a_srs_init srid p this
      | New_zealand_map_grid_srs \<Rightarrow> New_zealand_map_grid_srs_init srid p this
      | Hotine_oblique_mercator_variant_a_srs \<Rightarrow> Hotine_oblique_mercator_variant_a_srs_init srid p this
      | Laborde_oblique_mercator_srs \<Rightarrow> Laborde_oblique_mercator_srs_init srid p this
      | Hotine_oblique_mercator_variant_b_srs \<Rightarrow> Hotine_oblique_mercator_variant_b_srs_init srid p this
      | Tunisia_mining_grid_srs \<Rightarrow> Tunisia_mining_grid_srs_init srid p this
      | Lambert_conic_near_conformal_srs \<Rightarrow> Lambert_conic_near_conformal_srs_init srid p this
      | American_polyconic_srs \<Rightarrow> American_polyconic_srs_init srid p this
      | Krovak_srs \<Rightarrow> Krovak_srs_init srid p this
      | Lambert_azimuthal_equal_area_srs \<Rightarrow> Lambert_azimuthal_equal_area_srs_init srid p this
      | Albers_equal_area_srs \<Rightarrow> Albers_equal_area_srs_init srid p this
      | Transverse_mercator_zoned_grid_system_srs \<Rightarrow> Transverse_mercator_zoned_grid_system_srs_init srid p this
      | Lambert_conic_conformal_west_orientated_srs \<Rightarrow> Lambert_conic_conformal_west_orientated_srs_init srid p this
      | Bonne_south_orientated_srs \<Rightarrow> Bonne_south_orientated_srs_init srid p this
      | Polar_stereographic_variant_b_srs \<Rightarrow> Polar_stereographic_variant_b_srs_init srid p this
      | Polar_stereographic_variant_c_srs \<Rightarrow> Polar_stereographic_variant_c_srs_init srid p this
      | Guam_projection_srs \<Rightarrow> Guam_projection_srs_init srid p this
      | Modified_azimuthal_equidistant_srs \<Rightarrow> Modified_azimuthal_equidistant_srs_init srid p this
      | Hyperbolic_cassini_soldner_srs \<Rightarrow> Hyperbolic_cassini_soldner_srs_init srid p this
      | Lambert_cylindrical_equal_area_spherical_srs \<Rightarrow> Lambert_cylindrical_equal_area_spherical_srs_init srid p this
      | Lambert_cylindrical_equal_area_srs \<Rightarrow> Lambert_cylindrical_equal_area_srs_init srid p this)"

section \<open>The projection factory\<close>

text \<open>
  \<^verbatim>\<open>new_projection\<close> returns the object that the \<^verbatim>\<open>new\<close> expression of the
  selected case constructs; its caller \<open>create_projected_srs\<close> places it on the heap.
\<close>

definition new_projection :: "int \<Rightarrow> Projection_srs" where
  "new_projection epsg_code =
     (if epsg_code = 0 then Projection_srs_ctor Unknown_projected_srs
      else if epsg_code = 1024 then Projection_srs_ctor Popular_visualisation_pseudo_mercator_srs
      else if epsg_code = 1027 then Projection_srs_ctor Lambert_azimuthal_equal_area_spherical_srs
      else if epsg_code = 1028 then Projection_srs_ctor Equidistant_cylindrical_srs
      else if epsg_code = 1029 then Projection_srs_ctor Equidistant_cylindrical_spherical_srs
      else if epsg_code = 1041 then Projection_srs_ctor Krovak_north_orientated_srs
      else if epsg_code = 1042 then Projection_srs_ctor Krovak_modified_srs
      else if epsg_code = 1043 then Projection_srs_ctor Krovak_modified_north_orientated_srs
      else if epsg_code = 1051 then Projection_srs_ctor Lambert_conic_conformal_2sp_michigan_srs
      else if epsg_code = 1052 then Projection_srs_ctor Colombia_urban_srs
      else if epsg_code = 9801 then Projection_srs_ctor Lambert_conic_conformal_1sp_srs
      else if epsg_code = 9802 then Projection_srs_ctor Lambert_conic_conformal_2sp_srs
      else if epsg_code = 9803 then Projection_srs_ctor Lambert_conic_conformal_2sp_belgium_srs
      else if epsg_code = 9804 then Projection_srs_ctor Mercator_variant_a_srs
      else if epsg_code = 9805 then Projection_srs_ctor Mercator_variant_b_srs
      else if epsg_code = 9806 then Projection_srs_ctor Cassini_soldner_srs
      else if epsg_code = 9807 then Projection_srs_ctor Transverse_mercator_srs
      else if epsg_code = 9808 then Projection_srs_ctor Transverse_mercator_south_orientated_srs
      else if epsg_code = 9809 then Projection_srs_ctor Oblique_stereographic_srs
      else if epsg_code = 9810 then Projection_srs_ctor Polar_stereographic_variant_a_srs
      else if epsg_code = 9811 then Projection_srs_ctor New_zealand_map_grid_srs
      else if epsg_code = 9812 then Projection_srs_ctor Hotine_oblique_mercator_variant_a_srs
      else if epsg_code = 9813 then Projection_srs_ctor Laborde_oblique_mercator_srs
      else if epsg_code = 9815 then Projection_srs_ctor Hotine_oblique_mercator_variant_b_srs
      else if epsg_code = 9816 then Projection_srs_ctor Tunisia_mining_grid_srs
      else if epsg_code = 9817 then Projection_srs_ctor Lambert_conic_near_conformal_srs
      else if epsg_code = 9818 then Projection_srs_ctor American_polyconic_srs
      else if epsg_code = 9819 then Projection_srs_ctor Krovak_srs
      else if epsg_code = 9820 then Projection_srs_ctor Lambert_azimuthal_equal_area_srs
      else if epsg_code = 9822 then Projection_srs_ctor Albers_equal_area_srs
      else if epsg_code = 9824 then Projection_srs_ctor Transverse_mercator_zoned_grid_system_srs
      else if epsg_code = 9826 then Projection_srs_ctor Lambert_conic_conformal_west_orientated_srs
      else if epsg_code = 9828 then Projection_srs_ctor Bonne_south_orientated_srs
      else if epsg_code = 9829 then Projection_srs_ctor Polar_stereographic_variant_b_srs
      else if epsg_code = 9830 then Projection_srs_ctor Polar_stereographic_variant_c_srs
      else if epsg_code = 9831 then Projection_srs_ctor Guam_projection_srs
      else if epsg_code = 9832 then Projection_srs_ctor Modified_azimuthal_equidistant_srs
      else if epsg_code = 9833 then Projection_srs_ctor Hyperbolic_cassini_soldner_srs
      else if epsg_code = 9834 then Projection_srs_ctor Lambert_cylindrical_equal_area_spherical_srs
      else if epsg_code = 9835 then Projection_srs_ctor Lambert_cylindrical_equal_area_srs
      else Projection_srs_ctor Unknown_projected_srs)"

section \<open>The heap and the orchestrator\<close>

text \<open>
  The objects that \<^verbatim>\<open>new\<close> allocates live on a heap: a partial map from addresses
  to objects, and the next address \<^verbatim>\<open>new\<close> hands out. \<^verbatim>\<open>delete\<close> empties the
  cell. A pointer is an address or null (\<open>None\<close>).
\<close>

datatype Spatial_reference_system =
    Geographic Geographic_srs
  | Projected Projection_srs

record heap =
  cells :: "nat \<Rightarrow> Spatial_reference_system option"
  next_address :: nat

definition heap_new :: "Spatial_reference_system \<Rightarrow> heap \<Rightarrow> nat \<times> heap" where
  "heap_new obj h =
     (next_address h,
      h\<lparr>cells := (cells h)(next_address h \<mapsto> obj), next_address := Suc (next_address h)\<rparr>)"

definition heap_delete :: "nat \<Rightarrow> heap \<Rightarrow> heap" where
  "heap_delete a h = h\<lparr>cells := (cells h)(a := None)\<rparr>"

text \<open>
  \<^verbatim>\<open>create_geographic_srs\<close> and \<^verbatim>\<open>create_projected_srs\<close> return the failure flag,
  the pointer they store in \<^verbatim>\<open>*srs\<close>, the heap and the diagnostics. The object is
  constructed, initialised and then placed in its cell; nothing reads the heap in between,
  so this is the heap that allocating first and initialising in place leaves.
\<close>

definition create_geographic_srs ::
  "srid_t \<Rightarrow> Geographic_cs \<Rightarrow> heap \<Rightarrow> bool \<times> nat option \<times> heap" where
  "create_geographic_srs srid geog h =
     (let (res, this) = Geographic_srs_init srid geog Geographic_srs_ctor;
          (a, h') = heap_new (Geographic this) h
      in (res, Some a, h'))"

definition create_projected_srs ::
  "srid_t \<Rightarrow> Projected_cs \<Rightarrow> heap \<Rightarrow> bool \<times> nat option \<times> heap \<times> diagnostic list" where
  "create_projected_srs srid proj h =
     (let epsg_code =
            (if \<not> my_strcasecmp ''EPSG''
                    (c_str (authority_name (projection_authority (projection proj))))
             then (case stoi (authority_code (projection_authority (projection proj))) of
                     Some v \<Rightarrow> v
                   | None \<Rightarrow> 0)
             else 0);
          (res, this, diags) = init_virtual srid proj (new_projection epsg_code);
          (a, h') = heap_new (Projected this) h
      in (res, Some a, h', diags))"

text \<open>
  The grammar \<^verbatim>\<open>wkt_parser::parse_wkt\<close> is not among the sources: it is a parameter
  \<open>wp\<close> of the orchestrator, which maps the SRID and the text to its failure flag, the
  tree it stores in \<^verbatim>\<open>cs\<close> and the diagnostics it reports.

  The text \<open>wkt\<close> given to \<^verbatim>\<open>parse_wkt\<close> is \<open>None\<close> when \<^verbatim>\<open>begin\<close> is the null pointer, and the
  bytes from \<^verbatim>\<open>begin\<close> up to \<^verbatim>\<open>end\<close> otherwise (none when the two are equal).
  \<open>result\<close> is what \<^verbatim>\<open>*result\<close> holds when the function is called; the function
  returns its failure flag, what \<^verbatim>\<open>*result\<close> holds afterwards, the heap and the
  diagnostics.
\<close>

type_synonym wkt_parser = "srid_t \<Rightarrow> string \<Rightarrow> bool \<times> Coordinate_system \<times> diagnostic list"

text \<open>
  The statement \<^verbatim>\<open>if (res && tmp != nullptr) { delete tmp; tmp= nullptr; }\<close> that
  follows both builders in \<^verbatim>\<open>parse_wkt\<close>: it returns \<^verbatim>\<open>tmp\<close> and the heap.
\<close>

definition delete_on_failure :: "bool \<Rightarrow> nat option \<Rightarrow> heap \<Rightarrow> nat option \<times> heap" where
  "delete_on_failure res tmp h =
     (case tmp of
        Some a \<Rightarrow> if res then (None, heap_delete a h) else (tmp, h)
      | None \<Rightarrow> (tmp, h))"

definition parse_wkt ::
  "wkt_parser \<Rightarrow> srid_t \<Rightarrow> string option \<Rightarrow> nat option \<Rightarrow> heap
     \<Rightarrow> bool \<times> nat option \<times> heap \<times> diagnostic list" where
  "parse_wkt wp srid wkt result h =
     (if wkt = None \<or> wkt = Some []
      then (True, result, h, [ER_SRS_PARSE_ERROR srid])
      else
        (let (res, cs, parser_diags) = wp srid (the wkt)
         in if \<not> res
            then (case cs of
                    Projected_cs_node proj \<Rightarrow>
                      (let (res', tmp, h', diags) = create_projected_srs srid proj h;
                           (tmp', h'') = delete_on_failure res' tmp h'
                       in (res', tmp', h'', parser_diags @ diags))
                  | Geographic_cs_node geog \<Rightarrow>
                      (let (res', tmp, h') = create_geographic_srs srid geog h;
                           (tmp', h'') = delete_on_failure res' tmp h'
                       in (res', tmp', h'', parser_diags)))
            else (res, result, h, parser_diags)))"

section \<open>Predicates of the properties\<close>

text \<open>
  The four tests of the inner loop of \<^verbatim>\<open>set_parameters\<close>, named: whether the
  parsed parameter carries the authority name EPSG, and whether its authority code, its
  name, or its name again equals the descriptor's code, canonical name or alias.
\<close>

definition has_epsg_authority :: "Projection_parameter \<Rightarrow> bool" where
  "has_epsg_authority i =
     (\<not> my_strcasecmp ''EPSG'' (c_str (authority_name (parameter_authority i))))"

definition code_matches :: "Projection_parameter \<Rightarrow> int \<Rightarrow> bool" where
  "code_matches i code =
     (\<not> my_strcasecmp (c_str (to_string code)) (c_str (authority_code (parameter_authority i))))"

definition name_matches :: "Projection_parameter \<Rightarrow> int \<Rightarrow> bool" where
  "name_matches i code =
     (\<not> my_strcasecmp (c_str (map_at param_names code)) (c_str (parameter_name i)))"

definition alias_matches :: "Projection_parameter \<Rightarrow> int \<Rightarrow> bool" where
  "alias_matches i code =
     (\<not> my_strcasecmp (c_str (map_at param_aliases code)) (c_str (parameter_name i)))"

text \<open>
  A parsed parameter matches an EPSG code as the loop decides it: by its authority code
  when its authority is EPSG, by its name otherwise. It matches a double of the store
  when it matches the code of a descriptor that points to that double. The last matching
  parameter of a double is the last one in the order of the parameter list.
\<close>

definition parameter_matches :: "Projection_parameter \<Rightarrow> int \<Rightarrow> bool" where
  "parameter_matches i code =
     (if has_epsg_authority i then code_matches i code
      else name_matches i code \<or> alias_matches i code)"

definition matches_slot :: "(int \<times> 'a) list \<Rightarrow> Projection_parameter \<Rightarrow> 'a \<Rightarrow> bool" where
  "matches_slot D i s = (\<exists>pj \<in> set D. snd pj = s \<and> parameter_matches i (fst pj))"

definition last_matching_parameter ::
  "(int \<times> 'a) list \<Rightarrow> Projection_parameter list \<Rightarrow> 'a \<Rightarrow> Projection_parameter option" where
  "last_matching_parameter D P s = find (\<lambda>i. matches_slot D i s) (rev P)"

text \<open>The store in which every double holds the sentinel.\<close>

definition unset_store :: "'a \<Rightarrow> double" where
  "unset_store = (\<lambda>_. NaN)"

section \<open>Sample parse trees\<close>

text \<open>
  The trees of WGS 84 and of a Transverse Mercator system on it (UTM zone 32N), as the
  grammar delivers them; a parameter without an authority clause has empty authority
  strings.
\<close>

definition no_authority :: Authority where
  "no_authority = \<lparr>authority_name = [], authority_code = []\<rparr>"

definition epsg_authority :: "string \<Rightarrow> Authority" where
  "epsg_authority code = \<lparr>authority_name = ''EPSG'', authority_code = code\<rparr>"

definition named_parameter :: "string \<Rightarrow> double \<Rightarrow> Projection_parameter" where
  "named_parameter n v =
     \<lparr>parameter_name = n, parameter_authority = no_authority, parameter_value = v\<rparr>"

definition north_east :: Twin_axes where
  "north_east =
     \<lparr>axes_valid = True, axes_x = \<lparr>direction = NORTH\<rparr>, axes_y = \<lparr>direction = EAST\<rparr>\<rparr>"

definition east_north :: Twin_axes where
  "east_north =
     \<lparr>axes_valid = True, axes_x = \<lparr>direction = EAST\<rparr>, axes_y = \<lparr>direction = NORTH\<rparr>\<rparr>"

definition wgs84_cs :: Geographic_cs where
  "wgs84_cs =
     \<lparr>datum =
        \<lparr>spheroid =
           \<lparr>semi_major_axis = Num 6378137, inverse_flattening = Num 298.257223563\<rparr>,
         towgs84 =
           \<lparr>towgs84_valid = True, dx = Num 0, dy = Num 0, dz = Num 0,
            ex = Num 0, ey = Num 0, ez = Num 0, ppm = Num 0\<rparr>\<rparr>,
      prime_meridian = \<lparr>longitude = Num 0\<rparr>,
      angular_unit = \<lparr>conversion_factor = Num 0.017453292519943278\<rparr>,
      geographic_axes = north_east\<rparr>"

definition utm32_parameters :: "Projection_parameter list" where
  "utm32_parameters =
     [named_parameter ''latitude_of_origin'' (Num 0),
      named_parameter ''central_meridian'' (Num 9),
      named_parameter ''scale_factor'' (Num 0.9996),
      named_parameter ''false_easting'' (Num 500000),
      named_parameter ''false_northing'' (Num 0)]"

definition utm32_cs :: Projected_cs where
  "utm32_cs =
     \<lparr>geographic_cs = wgs84_cs,
      projection = \<lparr>projection_authority = epsg_authority ''9807''\<rparr>,
      parameters = utm32_parameters,
      linear_unit = \<lparr>conversion_factor = Num 1\<rparr>,
      projected_axes = east_north\<rparr>"

definition epsg_parameter :: "string \<Rightarrow> string \<Rightarrow> double \<Rightarrow> Projection_parameter" where
  "epsg_parameter n code v =
     \<lparr>parameter_name = n, parameter_authority = epsg_authority code, parameter_value = v\<rparr>"

text \<open>A grammar that accepts every text and delivers the given tree.\<close>

definition delivers :: "Coordinate_system \<Rightarrow> wkt_parser" where
  "delivers cs = (\<lambda>srid wkt. (False, cs, []))"

text \<open>A heap on which nothing has been allocated.\<close>

definition empty_heap :: heap where
  "empty_heap = \<lparr>cells = (\<lambda>_. None), next_address = 0\<rparr>"

section \<open>What the grammar guarantees and what the objects satisfy\<close>

text \<open>
  The guarantees of the grammar that the comments of the assertions in
  \<^verbatim>\<open>Geographic_srs::init\<close> and \<^verbatim>\<open>Projected_srs::init\<close> state and that
  section 4.2 and 4.3 of the specification repeat: the semi-major axis, the inverse
  flattening, the prime meridian and the units are present; a datum shift that is marked
  valid has its seven values; axes that are marked valid have both directions.
\<close>

definition grammar_guarantees_geographic :: "Geographic_cs \<Rightarrow> bool" where
  "grammar_guarantees_geographic g =
     (\<not> isnan (semi_major_axis (spheroid (datum g))) \<and>
      \<not> isnan (inverse_flattening (spheroid (datum g))) \<and>
      \<not> isnan (longitude (prime_meridian g)) \<and>
      \<not> isnan (conversion_factor (angular_unit g)) \<and>
      (towgs84_valid (towgs84 (datum g)) \<longrightarrow>
         \<not> isnan (dx (towgs84 (datum g))) \<and>
         \<not> isnan (dy (towgs84 (datum g))) \<and>
         \<not> isnan (dz (towgs84 (datum g))) \<and>
         \<not> isnan (ex (towgs84 (datum g))) \<and>
         \<not> isnan (ey (towgs84 (datum g))) \<and>
         \<not> isnan (ez (towgs84 (datum g))) \<and>
         \<not> isnan (ppm (towgs84 (datum g)))) \<and>
      (axes_valid (geographic_axes g) \<longrightarrow>
         direction (axes_x (geographic_axes g)) \<noteq> UNSPECIFIED \<and>
         direction (axes_y (geographic_axes g)) \<noteq> UNSPECIFIED))"






definition class_params :: "projection_class \<Rightarrow> (int \<times> member) list" where
  "class_params cls =
     (case cls of
        Unknown_projected_srs \<Rightarrow> []
      | Popular_visualisation_pseudo_mercator_srs \<Rightarrow> Popular_visualisation_pseudo_mercator_srs_params
      | Lambert_azimuthal_equal_area_spherical_srs \<Rightarrow> Lambert_azimuthal_equal_area_spherical_srs_params
      | Equidistant_cylindrical_srs \<Rightarrow> Equidistant_cylindrical_srs_params
      | Equidistant_cylindrical_spherical_srs \<Rightarrow> Equidistant_cylindrical_spherical_srs_params
      | Krovak_north_orientated_srs \<Rightarrow> Krovak_north_orientated_srs_params
      | Krovak_modified_srs \<Rightarrow> Krovak_modified_srs_params
      | Krovak_modified_north_orientated_srs \<Rightarrow> Krovak_modified_north_orientated_srs_params
      | Lambert_conic_conformal_2sp_michigan_srs \<Rightarrow> Lambert_conic_conformal_2sp_michigan_srs_params
      | Colombia_urban_srs \<Rightarrow> Colombia_urban_srs_params
      | Lambert_conic_conformal_1sp_srs \<Rightarrow> Lambert_conic_conformal_1sp_srs_params
      | Lambert_conic_conformal_2sp_srs \<Rightarrow> Lambert_conic_conformal_2sp_srs_params
      | Lambert_conic_conformal_2sp_belgium_srs \<Rightarrow> Lambert_conic_conformal_2sp_belgium_srs_params
      | Mercator_variant_a_srs \<Rightarrow> Mercator_variant_a_srs_params
      | Mercator_variant_b_srs \<Rightarrow> Mercator_variant_b_srs_params
      | Cassini_soldner_srs \<Rightarrow> Cassini_soldner_srs_params
      | Transverse_mercator_srs \<Rightarrow> Transverse_mercator_srs_params
      | Transverse_mercator_south_orientated_srs \<Rightarrow> Transverse_mercator_south_orientated_srs_params
      | Oblique_stereographic_srs \<Rightarrow> Oblique_stereographic_srs_params
      | Polar_stereographic_variant_a_srs \<Rightarrow> Polar_stereographic_variant_a_srs_params
      | New_zealand_map_grid_srs \<Rightarrow> New_zealand_map_grid_srs_params
      | Hotine_oblique_mercator_variant_a_srs \<Rightarrow> Hotine_oblique_mercator_variant_a_srs_params
      | Laborde_oblique_mercator_srs \<Rightarrow> Laborde_oblique_mercator_srs_params
      | Hotine_oblique_mercator_variant_b_srs \<Rightarrow> Hotine_oblique_mercator_variant_b_srs_params
      | Tunisia_mining_grid_srs \<Rightarrow> Tunisia_mining_grid_srs_params
      | Lambert_conic_near_conformal_srs \<Rightarrow> Lambert_conic_near_conformal_srs_params
      | American_polyconic_srs \<Rightarrow> American_polyconic_srs_params
      | Krovak_srs \<Rightarrow> Krovak_srs_params
      | Lambert_azimuthal_equal_area_srs \<Rightarrow> Lambert_azimuthal_equal_area_srs_params
      | Albers_equal_area_srs \<Rightarrow> Albers_equal_area_srs_params
      | Transverse_mercator_zoned_grid_system_srs \<Rightarrow> Transverse_mercator_zoned_grid_system_srs_params
      | Lambert_conic_conformal_west_orientated_srs \<Rightarrow> Lambert_conic_conformal_west_orientated_srs_params
      | Bonne_south_orientated_srs \<Rightarrow> Bonne_south_orientated_srs_params
      | Polar_stereographic_variant_b_srs \<Rightarrow> Polar_stereographic_variant_b_srs_params
      | Polar_stereographic_variant_c_srs \<Rightarrow> Polar_stereographic_variant_c_srs_params
      | Guam_projection_srs \<Rightarrow> Guam_projection_srs_params
      | Modified_azimuthal_equidistant_srs \<Rightarrow> Modified_azimuthal_equidistant_srs_params
      | Hyperbolic_cassini_soldner_srs \<Rightarrow> Hyperbolic_cassini_soldner_srs_params
      | Lambert_cylindrical_equal_area_spherical_srs \<Rightarrow> Lambert_cylindrical_equal_area_spherical_srs_params
      | Lambert_cylindrical_equal_area_srs \<Rightarrow> Lambert_cylindrical_equal_area_srs_params)"







section \<open>The catalogue of projection methods\<close>

text \<open>
  The EPSG coordinate operation methods of the catalogue, and for each of them, in the
  same order, the class that bears the name of the method.
\<close>

definition catalogued_codes :: "int list" where
  "catalogued_codes =
     [1024, 1027, 1028, 1029, 1041, 1042, 1043, 1051,
      1052, 9801, 9802, 9803, 9804, 9805, 9806, 9807,
      9808, 9809, 9810, 9811, 9812, 9813, 9815, 9816,
      9817, 9818, 9819, 9820, 9822, 9824, 9826, 9828,
      9829, 9830, 9831, 9832, 9833, 9834, 9835]"

definition catalogued_classes :: "projection_class list" where
  "catalogued_classes =
     [Popular_visualisation_pseudo_mercator_srs,
      Lambert_azimuthal_equal_area_spherical_srs,
      Equidistant_cylindrical_srs,
      Equidistant_cylindrical_spherical_srs,
      Krovak_north_orientated_srs,
      Krovak_modified_srs,
      Krovak_modified_north_orientated_srs,
      Lambert_conic_conformal_2sp_michigan_srs,
      Colombia_urban_srs,
      Lambert_conic_conformal_1sp_srs,
      Lambert_conic_conformal_2sp_srs,
      Lambert_conic_conformal_2sp_belgium_srs,
      Mercator_variant_a_srs,
      Mercator_variant_b_srs,
      Cassini_soldner_srs,
      Transverse_mercator_srs,
      Transverse_mercator_south_orientated_srs,
      Oblique_stereographic_srs,
      Polar_stereographic_variant_a_srs,
      New_zealand_map_grid_srs,
      Hotine_oblique_mercator_variant_a_srs,
      Laborde_oblique_mercator_srs,
      Hotine_oblique_mercator_variant_b_srs,
      Tunisia_mining_grid_srs,
      Lambert_conic_near_conformal_srs,
      American_polyconic_srs,
      Krovak_srs,
      Lambert_azimuthal_equal_area_srs,
      Albers_equal_area_srs,
      Transverse_mercator_zoned_grid_system_srs,
      Lambert_conic_conformal_west_orientated_srs,
      Bonne_south_orientated_srs,
      Polar_stereographic_variant_b_srs,
      Polar_stereographic_variant_c_srs,
      Guam_projection_srs,
      Modified_azimuthal_equidistant_srs,
      Hyperbolic_cassini_soldner_srs,
      Lambert_cylindrical_equal_area_spherical_srs,
      Lambert_cylindrical_equal_area_srs]"

section \<open>Parameters supplied by name\<close>

text \<open>
  A parameter list supplies the named values \<open>nvs\<close> when none of its parameters has the
  authority name EPSG and the names and values of its parameters are exactly those of
  \<open>nvs\<close>, in any order.
\<close>

definition supplies_by_name :: "Projection_parameter list \<Rightarrow> (string \<times> double) list \<Rightarrow> bool" where
  "supplies_by_name P nvs =
     ((\<forall>i \<in> set P. \<not> has_epsg_authority i) \<and>
      (\<lambda>i. (parameter_name i, parameter_value i)) ` set P = set nvs)"

definition utm32_values :: "(string \<times> double) list" where
  "utm32_values =
     [(''latitude_of_origin'', Num 0),
      (''central_meridian'', Num 9),
      (''scale_factor'', Num 0.9996),
      (''false_easting'', Num 500000),
      (''false_northing'', Num 0)]"


section \<open>The scan of the parameter extractor\<close>

lemma assign_parameter_eq:
  "assign_parameter i pj mem =
     (if parameter_matches i (fst pj) then mem(snd pj := parameter_value i) else mem)"
  by (simp add: assign_parameter_def parameter_matches_def has_epsg_authority_def
      code_matches_def name_matches_def alias_matches_def)

lemma scan_descriptors_fold: "scan_descriptors i D mem = fold (assign_parameter i) D mem"
  by (induction D arbitrary: mem) simp_all

lemma fold_product_single: "fold (\<lambda>(i, pj). f i pj) (map (Pair a) D) mem = fold (f a) D mem"
  by (induction D arbitrary: mem) simp_all

lemma scan_parameters_fold:
  "scan_parameters P D mem = fold (\<lambda>(i, pj). assign_parameter i pj) (List.product P D) mem"
  by (induction P arbitrary: mem) (simp_all add: scan_descriptors_fold fold_product_single)

lemma matches_slot_Nil: "\<not> matches_slot [] i s"
  by (simp add: matches_slot_def)

lemma matches_slot_Cons:
  "matches_slot (pj # D) i s =
     ((snd pj = s \<and> parameter_matches i (fst pj)) \<or> matches_slot D i s)"
  by (simp add: matches_slot_def)

lemma scan_descriptors_at:
  "scan_descriptors i D mem s = (if matches_slot D i s then parameter_value i else mem s)"
proof (induction D arbitrary: mem)
  case Nil
  show ?case by (simp add: matches_slot_Nil)
next
  case (Cons pj D)
  have "scan_descriptors i (pj # D) mem s =
          (if matches_slot D i s then parameter_value i else assign_parameter i pj mem s)"
    by (simp add: Cons.IH)
  also have "\<dots> = (if matches_slot (pj # D) i s then parameter_value i else mem s)"
    by (simp add: assign_parameter_eq matches_slot_Cons)
  finally show ?case .
qed

lemma find_app:
  "find Q (xs @ ys) = (case find Q xs of None \<Rightarrow> find Q ys | Some x \<Rightarrow> Some x)"
  by (induction xs) simp_all

lemma find_None_all: "(find Q xs = None) = (\<forall>x \<in> set xs. \<not> Q x)"
  by (induction xs) simp_all

lemma last_matching_parameter_Cons:
  "last_matching_parameter D (i # P) s =
     (case last_matching_parameter D P s of
        None \<Rightarrow> if matches_slot D i s then Some i else None
      | Some i' \<Rightarrow> Some i')"
  by (simp add: last_matching_parameter_def find_app split: option.splits)

lemma scan_parameters_at:
  "scan_parameters P D mem s =
     (case last_matching_parameter D P s of None \<Rightarrow> mem s | Some i \<Rightarrow> parameter_value i)"
proof (induction P arbitrary: mem)
  case Nil
  show ?case by (simp add: last_matching_parameter_def)
next
  case (Cons i P)
  show ?case
    by (simp add: Cons.IH last_matching_parameter_Cons scan_descriptors_at
        split: option.splits)
qed

lemma check_mandatory_find:
  "check_mandatory srid D mem =
     (case find (\<lambda>pj. isnan (mem (snd pj))) D of
        None \<Rightarrow> (False, [])
      | Some pj \<Rightarrow>
          (True, [ER_SRS_PROJ_PARAMETER_MISSING srid (map_at param_names (fst pj)) (fst pj)]))"
  by (induction D) simp_all

lemma set_parameters_find:
  "set_parameters srid proj D mem =
     (let mem' = scan_parameters (parameters proj) D mem
      in case find (\<lambda>pj. isnan (mem' (snd pj))) D of
           None \<Rightarrow> (False, mem', [])
         | Some pj \<Rightarrow>
             (True, mem',
              [ER_SRS_PROJ_PARAMETER_MISSING srid (map_at param_names (fst pj)) (fst pj)]))"
  by (simp add: set_parameters_def check_mandatory_find Let_def split: option.splits)

lemma set_parameters_store:
  "fst (snd (set_parameters srid proj D mem)) = scan_parameters (parameters proj) D mem"
  by (simp add: set_parameters_def Let_def split: prod.splits)

lemma set_parameters_flag:
  "fst (set_parameters srid proj D mem) =
     (\<exists>pj \<in> set D. isnan (scan_parameters (parameters proj) D mem (snd pj)))"
proof (cases "find (\<lambda>pj. isnan (scan_parameters (parameters proj) D mem (snd pj))) D")
  case None
  then have "\<forall>x \<in> set D. \<not> isnan (scan_parameters (parameters proj) D mem (snd x))"
    using find_None_all [of "\<lambda>pj. isnan (scan_parameters (parameters proj) D mem (snd pj))" D]
    by simp
  with None show ?thesis
    by (simp add: set_parameters_find Let_def)
next
  case (Some pj)
  then have "\<not> (\<forall>x \<in> set D. \<not> isnan (scan_parameters (parameters proj) D mem (snd x)))"
    using find_None_all [of "\<lambda>pj. isnan (scan_parameters (parameters proj) D mem (snd pj))" D]
    by simp
  with Some show ?thesis
    by (simp add: set_parameters_find Let_def)
qed

lemma set_parameters_diagnostics:
  "snd (snd (set_parameters srid proj D mem)) =
     (case find (\<lambda>pj. isnan (scan_parameters (parameters proj) D mem (snd pj))) D of
        None \<Rightarrow> []
      | Some pj \<Rightarrow>
          [ER_SRS_PROJ_PARAMETER_MISSING srid (map_at param_names (fst pj)) (fst pj)])"
  by (simp add: set_parameters_find Let_def split: option.splits)

section \<open>Evaluation on the sample parameters\<close>

text \<open>The case table on the letters, the digits and the underscore.\<close>

lemma to_upper_latin1_ascii:
  "to_upper_latin1 CHR ''a'' = CHR ''A''"
  "to_upper_latin1 CHR ''b'' = CHR ''B''"
  "to_upper_latin1 CHR ''c'' = CHR ''C''"
  "to_upper_latin1 CHR ''d'' = CHR ''D''"
  "to_upper_latin1 CHR ''e'' = CHR ''E''"
  "to_upper_latin1 CHR ''f'' = CHR ''F''"
  "to_upper_latin1 CHR ''g'' = CHR ''G''"
  "to_upper_latin1 CHR ''h'' = CHR ''H''"
  "to_upper_latin1 CHR ''i'' = CHR ''I''"
  "to_upper_latin1 CHR ''j'' = CHR ''J''"
  "to_upper_latin1 CHR ''k'' = CHR ''K''"
  "to_upper_latin1 CHR ''l'' = CHR ''L''"
  "to_upper_latin1 CHR ''m'' = CHR ''M''"
  "to_upper_latin1 CHR ''n'' = CHR ''N''"
  "to_upper_latin1 CHR ''o'' = CHR ''O''"
  "to_upper_latin1 CHR ''p'' = CHR ''P''"
  "to_upper_latin1 CHR ''q'' = CHR ''Q''"
  "to_upper_latin1 CHR ''r'' = CHR ''R''"
  "to_upper_latin1 CHR ''s'' = CHR ''S''"
  "to_upper_latin1 CHR ''t'' = CHR ''T''"
  "to_upper_latin1 CHR ''u'' = CHR ''U''"
  "to_upper_latin1 CHR ''v'' = CHR ''V''"
  "to_upper_latin1 CHR ''w'' = CHR ''W''"
  "to_upper_latin1 CHR ''x'' = CHR ''X''"
  "to_upper_latin1 CHR ''y'' = CHR ''Y''"
  "to_upper_latin1 CHR ''z'' = CHR ''Z''"
  "to_upper_latin1 CHR ''A'' = CHR ''A''"
  "to_upper_latin1 CHR ''B'' = CHR ''B''"
  "to_upper_latin1 CHR ''C'' = CHR ''C''"
  "to_upper_latin1 CHR ''D'' = CHR ''D''"
  "to_upper_latin1 CHR ''E'' = CHR ''E''"
  "to_upper_latin1 CHR ''F'' = CHR ''F''"
  "to_upper_latin1 CHR ''G'' = CHR ''G''"
  "to_upper_latin1 CHR ''H'' = CHR ''H''"
  "to_upper_latin1 CHR ''I'' = CHR ''I''"
  "to_upper_latin1 CHR ''J'' = CHR ''J''"
  "to_upper_latin1 CHR ''K'' = CHR ''K''"
  "to_upper_latin1 CHR ''L'' = CHR ''L''"
  "to_upper_latin1 CHR ''M'' = CHR ''M''"
  "to_upper_latin1 CHR ''N'' = CHR ''N''"
  "to_upper_latin1 CHR ''O'' = CHR ''O''"
  "to_upper_latin1 CHR ''P'' = CHR ''P''"
  "to_upper_latin1 CHR ''Q'' = CHR ''Q''"
  "to_upper_latin1 CHR ''R'' = CHR ''R''"
  "to_upper_latin1 CHR ''S'' = CHR ''S''"
  "to_upper_latin1 CHR ''T'' = CHR ''T''"
  "to_upper_latin1 CHR ''U'' = CHR ''U''"
  "to_upper_latin1 CHR ''V'' = CHR ''V''"
  "to_upper_latin1 CHR ''W'' = CHR ''W''"
  "to_upper_latin1 CHR ''X'' = CHR ''X''"
  "to_upper_latin1 CHR ''Y'' = CHR ''Y''"
  "to_upper_latin1 CHR ''Z'' = CHR ''Z''"
  "to_upper_latin1 CHR ''0'' = CHR ''0''"
  "to_upper_latin1 CHR ''1'' = CHR ''1''"
  "to_upper_latin1 CHR ''2'' = CHR ''2''"
  "to_upper_latin1 CHR ''3'' = CHR ''3''"
  "to_upper_latin1 CHR ''4'' = CHR ''4''"
  "to_upper_latin1 CHR ''5'' = CHR ''5''"
  "to_upper_latin1 CHR ''6'' = CHR ''6''"
  "to_upper_latin1 CHR ''7'' = CHR ''7''"
  "to_upper_latin1 CHR ''8'' = CHR ''8''"
  "to_upper_latin1 CHR ''9'' = CHR ''9''"
  "to_upper_latin1 CHR ''_'' = CHR ''_''"
  by (simp_all add: to_upper_latin1_def char_of_eq_iff)

lemma c_str_literals:
  "c_str [] = []"
  "c_str ''EPSG'' = ''EPSG''"
  "c_str ''ESRI'' = ''ESRI''"
  "c_str ''latitude_of_origin'' = ''latitude_of_origin''"
  "c_str ''central_meridian'' = ''central_meridian''"
  "c_str ''scale_factor'' = ''scale_factor''"
  "c_str ''false_easting'' = ''false_easting''"
  "c_str ''false_northing'' = ''false_northing''"
  "c_str ''8806'' = ''8806''"
  "c_str ''9999'' = ''9999''"
  by (simp_all add: c_str_def)

lemmas upper_literals = c_str_literals to_upper_latin1_ascii

lemma transverse_mercator_names:
  "map_at param_names 8801 = ''latitude_of_origin''"
  "map_at param_names 8802 = ''central_meridian''"
  "map_at param_names 8805 = ''scale_factor''"
  "map_at param_names 8806 = ''false_easting''"
  "map_at param_names 8807 = ''false_northing''"
  by (simp_all add: map_at_def param_names_def)

lemma param_aliases_at:
  "map_at param_aliases code =
     (if code = 8823 then ''standard_parallel1''
      else if code = 8824 then ''standard_parallel2'' else [])"
  by (simp add: map_at_def param_aliases_def)

lemma to_string_8806: "to_string 8806 = ''8806''"
  by (simp add: to_string_def digit_char_def)

lemma named_parameter_no_epsg: "\<not> has_epsg_authority (named_parameter n v)"
  by (simp add: has_epsg_authority_def named_parameter_def no_authority_def my_strcasecmp_def
      upper_literals)

lemma named_parameter_matches:
  "parameter_matches (named_parameter n v) code =
     (\<not> my_strcasecmp (c_str (map_at param_names code)) (c_str n) \<or>
      \<not> my_strcasecmp (c_str (map_at param_aliases code)) (c_str n))"
  by (simp add: parameter_matches_def named_parameter_no_epsg name_matches_def
      alias_matches_def) (simp add: named_parameter_def)

lemma named_parameter_value: "parameter_value (named_parameter n v) = v"
  by (simp add: named_parameter_def)

lemmas transverse_mercator_eval =
  named_parameter_matches named_parameter_value my_strcasecmp_def upper_literals
  transverse_mercator_names param_aliases_at Transverse_mercator_srs_params_def

section \<open>The geographic builder\<close>

lemma Geographic_srs_init_flag: "fst (Geographic_srs_init srid g this) = False"
  by (simp add: Geographic_srs_init_def Let_def)

lemma list7_update:
  "length vs = 7 \<Longrightarrow>
     vs[0 := a0, Suc 0 := a1, 2 := a2, 3 := a3, 4 := a4, 5 := a5, 6 := a6] =
       [a0, a1, a2, a3, a4, a5, a6]"
  by (auto simp: length_Suc_conv numeral_eq_Suc)

lemma list2_update: "length ds = 2 \<Longrightarrow> ds[0 := a0, Suc 0 := a1] = [a0, a1]"
  by (auto simp: length_Suc_conv numeral_eq_Suc)

lemma nth_literal:
  "[a0, a1, a2, a3, a4, a5, a6] ! 0 = a0"
  "[a0, a1, a2, a3, a4, a5, a6] ! 1 = a1"
  "[a0, a1, a2, a3, a4, a5, a6] ! 2 = a2"
  "[a0, a1, a2, a3, a4, a5, a6] ! 3 = a3"
  "[a0, a1, a2, a3, a4, a5, a6] ! 4 = a4"
  "[a0, a1, a2, a3, a4, a5, a6] ! 5 = a5"
  "[a0, a1, a2, a3, a4, a5, a6] ! 6 = a6"
  "[b0, b1] ! 0 = b0"
  "[b0, b1] ! 1 = b1"
  by (simp_all add: numeral_eq_Suc)

text \<open>The object that \<^verbatim>\<open>Geographic_srs::init\<close> leaves, member by member.\<close>

lemma Geographic_srs_init_object:
  assumes "length (m_towgs84 this) = 7" and "length (Geographic_srs.m_axes this) = 2"
  shows "snd (Geographic_srs_init srid g this) =
     this\<lparr>m_semi_major_axis := semi_major_axis (spheroid (datum g)),
          m_inverse_flattening := inverse_flattening (spheroid (datum g)),
          m_towgs84 :=
            (if towgs84_valid (towgs84 (datum g))
             then [dx (towgs84 (datum g)), dy (towgs84 (datum g)), dz (towgs84 (datum g)),
                   ex (towgs84 (datum g)), ey (towgs84 (datum g)), ez (towgs84 (datum g)),
                   ppm (towgs84 (datum g))]
             else m_towgs84 this),
          m_prime_meridian := longitude (prime_meridian g),
          m_angular_unit := conversion_factor (angular_unit g),
          Geographic_srs.m_axes :=
            (if axes_valid (geographic_axes g)
             then [direction (axes_x (geographic_axes g)),
                   direction (axes_y (geographic_axes g))]
             else Geographic_srs.m_axes this)\<rparr>"
  using assms by (simp add: Geographic_srs_init_def Let_def list7_update list2_update)

lemma Geographic_srs_ctor_lengths:
  "length (m_towgs84 Geographic_srs_ctor) = 7"
  "length (Geographic_srs.m_axes Geographic_srs_ctor) = 2"
  by (simp_all add: Geographic_srs_ctor_def)

text \<open>
  C9: \<^verbatim>\<open>Geographic_srs::init\<close> never returns failure. On a tree that keeps the
  guarantees of the grammar, applied to an object whose arrays have their declared
  lengths, it returns false and the conditions of all its assertions hold.
\<close>

theorem Geographic_srs_init_succeeds:
  assumes "grammar_guarantees_geographic g"
    and "length (m_towgs84 this) = 7"
    and "length (Geographic_srs.m_axes this) = 2"
  shows "fst (Geographic_srs_init srid g this) = False \<and>
         Geographic_srs_init_asserts g (snd (Geographic_srs_init srid g this)) \<and>
         (\<forall>srid' g' this'. fst (Geographic_srs_init srid' g' this') = False)"
proof -
  have "Geographic_srs_init_asserts g (snd (Geographic_srs_init srid g this))"
    using assms(1)
    by (simp add: Geographic_srs_init_object [OF assms(2,3)] Geographic_srs_init_asserts_def
        grammar_guarantees_geographic_def nth_literal)
  then show ?thesis
    by (simp add: Geographic_srs_init_flag)
qed

text \<open>The tree of WGS 84 and a fresh object.\<close>

theorem Geographic_srs_init_succeeds_witness:
  "grammar_guarantees_geographic wgs84_cs \<and>
   fst (Geographic_srs_init 4326 wgs84_cs Geographic_srs_ctor) = False \<and>
   Geographic_srs_init_asserts wgs84_cs (snd (Geographic_srs_init 4326 wgs84_cs Geographic_srs_ctor))"
proof -
  have g: "grammar_guarantees_geographic wgs84_cs"
    by (simp add: grammar_guarantees_geographic_def wgs84_cs_def north_east_def isnan_def)
  show ?thesis
    using g Geographic_srs_init_succeeds [OF g Geographic_srs_ctor_lengths, of 4326]
    by simp
qed

section \<open>The projected builders\<close>

lemma Projected_srs_init_flag: "fst (Projected_srs_init srid p this) = False"
proof -
  obtain geo where "Geographic_srs_init srid (geographic_cs p) (m_geographic_srs this) = (False, geo)"
    using Geographic_srs_init_flag [of srid "geographic_cs p" "m_geographic_srs this"]
    by (cases "Geographic_srs_init srid (geographic_cs p) (m_geographic_srs this)") simp
  then show ?thesis
    by (simp add: Projected_srs_init_def Let_def)
qed

lemma Projected_srs_init_object:
  assumes "length (m_axes this) = 2"
  shows "snd (Projected_srs_init srid p this) =
     this\<lparr>m_geographic_srs :=
            snd (Geographic_srs_init srid (geographic_cs p) (m_geographic_srs this)),
          m_linear_unit := conversion_factor (linear_unit p),
          m_axes :=
            (if axes_valid (projected_axes p)
             then [direction (axes_x (projected_axes p)), direction (axes_y (projected_axes p))]
             else m_axes this)\<rparr>"
  using assms
  by (simp add: Projected_srs_init_def Let_def list2_update split: prod.splits)

lemma scan_parameters_no_descriptors: "scan_parameters P [] mem = mem"
  by (induction P) simp_all

lemma init_parameters_eq:
  "init_parameters params srid p this =
     (fst (set_parameters srid p params (m_parameters (snd (Projected_srs_init srid p this)))),
      (snd (Projected_srs_init srid p this))
        \<lparr>m_parameters :=
           scan_parameters (parameters p) params
             (m_parameters (snd (Projected_srs_init srid p this)))\<rparr>,
      snd (snd (set_parameters srid p params
        (m_parameters (snd (Projected_srs_init srid p this))))))"
proof -
  obtain this1 where 1: "Projected_srs_init srid p this = (False, this1)"
    using Projected_srs_init_flag [of srid p this]
    by (cases "Projected_srs_init srid p this") simp
  obtain res' mem diags where 2: "set_parameters srid p params (m_parameters this1) = (res', mem, diags)"
    by (cases "set_parameters srid p params (m_parameters this1)") auto
  have "mem = scan_parameters (parameters p) params (m_parameters this1)"
    using 2 set_parameters_store [of srid p params "m_parameters this1"] by simp
  with 1 2 show ?thesis
    by (simp add: init_parameters_def)
qed

lemma Unknown_projected_srs_init_eq:
  "Unknown_projected_srs_init srid p this = init_parameters [] srid p this"
proof -
  obtain this1 where 1: "Projected_srs_init srid p this = (False, this1)"
    using Projected_srs_init_flag [of srid p this]
    by (cases "Projected_srs_init srid p this") simp
  then show ?thesis
    by (simp add: Unknown_projected_srs_init_def init_parameters_def set_parameters_def
        scan_parameters_no_descriptors)
qed

text \<open>
  The virtual call runs the three statements of \<open>init_parameters\<close> on the descriptor
  list of the class of the object.
\<close>

lemma init_virtual_class:
  "init_virtual srid p this = init_parameters (class_params (dynamic_class this)) srid p this"
  by (cases "dynamic_class this")
     (simp_all add: init_virtual_def class_params_def Unknown_projected_srs_init_eq
        Popular_visualisation_pseudo_mercator_srs_init_def
        Lambert_azimuthal_equal_area_spherical_srs_init_def
        Equidistant_cylindrical_srs_init_def Equidistant_cylindrical_spherical_srs_init_def
        Krovak_north_orientated_srs_init_def Krovak_modified_srs_init_def
        Krovak_modified_north_orientated_srs_init_def
        Lambert_conic_conformal_2sp_michigan_srs_init_def Colombia_urban_srs_init_def
        Lambert_conic_conformal_1sp_srs_init_def Lambert_conic_conformal_2sp_srs_init_def
        Lambert_conic_conformal_2sp_belgium_srs_init_def Mercator_variant_a_srs_init_def
        Mercator_variant_b_srs_init_def Cassini_soldner_srs_init_def
        Transverse_mercator_srs_init_def Transverse_mercator_south_orientated_srs_init_def
        Oblique_stereographic_srs_init_def Polar_stereographic_variant_a_srs_init_def
        New_zealand_map_grid_srs_init_def Hotine_oblique_mercator_variant_a_srs_init_def
        Laborde_oblique_mercator_srs_init_def Hotine_oblique_mercator_variant_b_srs_init_def
        Tunisia_mining_grid_srs_init_def Lambert_conic_near_conformal_srs_init_def
        American_polyconic_srs_init_def Krovak_srs_init_def
        Lambert_azimuthal_equal_area_srs_init_def Albers_equal_area_srs_init_def
        Transverse_mercator_zoned_grid_system_srs_init_def
        Lambert_conic_conformal_west_orientated_srs_init_def
        Bonne_south_orientated_srs_init_def Polar_stereographic_variant_b_srs_init_def
        Polar_stereographic_variant_c_srs_init_def Guam_projection_srs_init_def
        Modified_azimuthal_equidistant_srs_init_def Hyperbolic_cassini_soldner_srs_init_def
        Lambert_cylindrical_equal_area_spherical_srs_init_def
        Lambert_cylindrical_equal_area_srs_init_def)

lemma new_projection_ctor:
  "new_projection epsg_code = Projection_srs_ctor (dynamic_class (new_projection epsg_code))"
  by (simp add: new_projection_def Projection_srs_ctor_def)

lemma Projection_srs_ctor_fields:
  "dynamic_class (Projection_srs_ctor cls) = cls"
  "m_parameters (Projection_srs_ctor cls) = unset_store"
  "m_axes (Projection_srs_ctor cls) = [UNSPECIFIED, UNSPECIFIED]"
  "m_linear_unit (Projection_srs_ctor cls) = NaN"
  "m_geographic_srs (Projection_srs_ctor cls) = Geographic_srs_ctor"
  by (simp_all add: Projection_srs_ctor_def unset_store_def)

text \<open>What \<^verbatim>\<open>init\<close> makes of the object that \<^verbatim>\<open>new_projection\<close> returns.\<close>

lemma init_virtual_new_projection:
  "init_virtual srid p (new_projection epsg_code) =
     (fst (set_parameters srid p (class_params (dynamic_class (new_projection epsg_code)))
             unset_store),
      (Projection_srs_ctor (dynamic_class (new_projection epsg_code)))
        \<lparr>m_geographic_srs :=
           snd (Geographic_srs_init srid (geographic_cs p) Geographic_srs_ctor),
         m_linear_unit := conversion_factor (linear_unit p),
         m_axes :=
           (if axes_valid (projected_axes p)
            then [direction (axes_x (projected_axes p)), direction (axes_y (projected_axes p))]
            else [UNSPECIFIED, UNSPECIFIED]),
         m_parameters :=
           scan_parameters (parameters p)
             (class_params (dynamic_class (new_projection epsg_code))) unset_store\<rparr>,
      snd (snd (set_parameters srid p
        (class_params (dynamic_class (new_projection epsg_code))) unset_store)))"
proof -
  let ?cls = "dynamic_class (new_projection epsg_code)"
  have new: "new_projection epsg_code = Projection_srs_ctor ?cls"
    by (rule new_projection_ctor)
  have base: "snd (Projected_srs_init srid p (Projection_srs_ctor ?cls)) =
     (Projection_srs_ctor ?cls)
       \<lparr>m_geographic_srs :=
          snd (Geographic_srs_init srid (geographic_cs p) Geographic_srs_ctor),
        m_linear_unit := conversion_factor (linear_unit p),
        m_axes :=
          (if axes_valid (projected_axes p)
           then [direction (axes_x (projected_axes p)), direction (axes_y (projected_axes p))]
           else [UNSPECIFIED, UNSPECIFIED])\<rparr>"
    by (simp add: Projected_srs_init_object Projection_srs_ctor_fields)
  have "init_virtual srid p (Projection_srs_ctor ?cls) =
          init_parameters (class_params ?cls) srid p (Projection_srs_ctor ?cls)"
    by (simp add: init_virtual_class Projection_srs_ctor_fields)
  also have "\<dots> =
     (fst (set_parameters srid p (class_params ?cls) unset_store),
      (Projection_srs_ctor ?cls)
        \<lparr>m_geographic_srs :=
           snd (Geographic_srs_init srid (geographic_cs p) Geographic_srs_ctor),
         m_linear_unit := conversion_factor (linear_unit p),
         m_axes :=
           (if axes_valid (projected_axes p)
            then [direction (axes_x (projected_axes p)), direction (axes_y (projected_axes p))]
            else [UNSPECIFIED, UNSPECIFIED]),
         m_parameters := scan_parameters (parameters p) (class_params ?cls) unset_store\<rparr>,
      snd (snd (set_parameters srid p (class_params ?cls) unset_store)))"
    by (simp add: init_parameters_eq base Projection_srs_ctor_fields)
  finally show ?thesis
    using new by simp
qed

text \<open>The EPSG code that \<^verbatim>\<open>create_projected_srs\<close> reads off the projection clause.\<close>

lemma create_projected_srs_eq:
  "create_projected_srs srid proj h =
     (let epsg_code =
            (if \<not> my_strcasecmp ''EPSG''
                    (c_str (authority_name (projection_authority (projection proj))))
             then (case stoi (authority_code (projection_authority (projection proj))) of
                     Some v \<Rightarrow> v
                   | None \<Rightarrow> 0)
             else 0)
      in (fst (init_virtual srid proj (new_projection epsg_code)),
          Some (next_address h),
          snd (heap_new (Projected (fst (snd (init_virtual srid proj (new_projection epsg_code))))) h),
          snd (snd (init_virtual srid proj (new_projection epsg_code)))))"
  by (simp add: create_projected_srs_def Let_def heap_new_def split: prod.splits)

lemma create_geographic_srs_eq:
  "create_geographic_srs srid geog h =
     (False, Some (next_address h),
      snd (heap_new (Geographic (snd (Geographic_srs_init srid geog Geographic_srs_ctor))) h))"
proof -
  obtain this where "Geographic_srs_init srid geog Geographic_srs_ctor = (False, this)"
    using Geographic_srs_init_flag [of srid geog Geographic_srs_ctor]
    by (cases "Geographic_srs_init srid geog Geographic_srs_ctor") simp
  then show ?thesis
    by (simp add: create_geographic_srs_def heap_new_def)
qed

lemma heap_new_cells:
  "cells (snd (heap_new obj h)) = (cells h)(next_address h \<mapsto> obj)"
  by (simp add: heap_new_def)

lemma delete_new:
  assumes "cells h (next_address h) = None"
  shows "cells (heap_delete (next_address h) (snd (heap_new obj h))) = cells h"
  using assms by (auto simp: heap_delete_def heap_new_def)

section \<open>The priority of the matching\<close>

text \<open>
  C1, as the code has it: \<^verbatim>\<open>set_parameters\<close> leaves the store that results from
  treating every pair of a parsed parameter and a descriptor in turn, the parameters in
  the order of the parse tree and for each of them the descriptors in the order of the
  list. For one pair, a parameter whose authority name is EPSG is assigned exactly when
  its authority code equals the decimal form of the descriptor's code, and its name is not
  looked at; a parameter with any other authority name is assigned when its name equals
  the canonical name of the descriptor, or else when it equals the alias. So a parameter
  with the authority name EPSG and another code is not assigned, whatever its name.
\<close>

theorem set_parameters_matching_priority:
  "fst (snd (set_parameters srid proj D mem)) =
     fold (\<lambda>(i, pj). assign_parameter i pj) (List.product (parameters proj) D) mem \<and>
   assign_parameter i pj mem =
     (if has_epsg_authority i
      then (if code_matches i (fst pj) then mem(snd pj := parameter_value i) else mem)
      else if name_matches i (fst pj) then mem(snd pj := parameter_value i)
      else if alias_matches i (fst pj) then mem(snd pj := parameter_value i)
      else mem) \<and>
   (has_epsg_authority i \<and> \<not> code_matches i (fst pj) \<longrightarrow> assign_parameter i pj mem = mem)"
proof -
  have "fst (snd (set_parameters srid proj D mem)) =
          fold (\<lambda>(i, pj). assign_parameter i pj) (List.product (parameters proj) D) mem"
    by (simp add: set_parameters_store scan_parameters_fold)
  moreover have "assign_parameter i pj mem =
     (if has_epsg_authority i
      then (if code_matches i (fst pj) then mem(snd pj := parameter_value i) else mem)
      else if name_matches i (fst pj) then mem(snd pj := parameter_value i)
      else if alias_matches i (fst pj) then mem(snd pj := parameter_value i)
      else mem)"
    by (simp add: assign_parameter_def has_epsg_authority_def code_matches_def
        name_matches_def alias_matches_def)
  ultimately show ?thesis by simp
qed

text \<open>
  A parameter \<^verbatim>\<open>false_easting\<close> with the authority EPSG and the code 9999 leaves
  the store as it is at the descriptor of code 8806; with the code 8806 it is assigned,
  under any name.
\<close>

theorem set_parameters_matching_priority_witness:
  "assign_parameter (epsg_parameter ''false_easting'' ''9999'' (Num 5))
     (8806, m_false_easting) unset_store = unset_store \<and>
   assign_parameter (epsg_parameter ''scale_factor'' ''8806'' (Num 5))
     (8806, m_false_easting) unset_store m_false_easting = Num 5"
proof -
  have epsg: "has_epsg_authority (epsg_parameter n c v)" for n c v
    by (simp add: has_epsg_authority_def epsg_parameter_def epsg_authority_def
        my_strcasecmp_def upper_literals)
  have other: "\<not> code_matches (epsg_parameter ''false_easting'' ''9999'' (Num 5)) 8806"
    by (simp add: code_matches_def epsg_parameter_def epsg_authority_def my_strcasecmp_def
        to_string_8806 upper_literals)
  have same: "code_matches (epsg_parameter ''scale_factor'' ''8806'' (Num 5)) 8806"
    by (simp add: code_matches_def epsg_parameter_def epsg_authority_def my_strcasecmp_def
        to_string_8806 upper_literals)
  have "assign_parameter (epsg_parameter ''false_easting'' ''9999'' (Num 5))
          (8806, m_false_easting) unset_store = unset_store"
    using set_parameters_matching_priority
      [where i = "epsg_parameter ''false_easting'' ''9999'' (Num 5)"
         and pj = "(8806, m_false_easting)" and mem = unset_store]
      epsg other
    by simp
  moreover have "assign_parameter (epsg_parameter ''scale_factor'' ''8806'' (Num 5))
          (8806, m_false_easting) unset_store m_false_easting = Num 5"
    using set_parameters_matching_priority
      [where i = "epsg_parameter ''scale_factor'' ''8806'' (Num 5)"
         and pj = "(8806, m_false_easting)" and mem = unset_store]
      epsg same
    by (simp add: epsg_parameter_def)
  ultimately show ?thesis by simp
qed

text \<open>
  C1 as stated fails. The parameter \<^verbatim>\<open>false_easting\<close> with the authority EPSG
  and the code 9999 has a name that equals the canonical name of code 8806 and a code that
  does not equal 8806. The claim has it assigned to the double of that descriptor;
  \<^verbatim>\<open>set_parameters\<close> leaves the double at the sentinel and reports the parameter of
  code 8806 missing.
\<close>

theorem set_parameters_matching_priority_counterexample:
  "has_epsg_authority (epsg_parameter ''false_easting'' ''9999'' (Num 5)) \<and>
   \<not> code_matches (epsg_parameter ''false_easting'' ''9999'' (Num 5)) 8806 \<and>
   name_matches (epsg_parameter ''false_easting'' ''9999'' (Num 5)) 8806 \<and>
   set_parameters 32632
     (utm32_cs\<lparr>parameters := [epsg_parameter ''false_easting'' ''9999'' (Num 5)]\<rparr>)
     [(8806, m_false_easting)] unset_store =
     (True, unset_store, [ER_SRS_PROJ_PARAMETER_MISSING 32632 ''false_easting'' 8806])"
  by (simp add: has_epsg_authority_def code_matches_def name_matches_def
      epsg_parameter_def epsg_authority_def my_strcasecmp_def to_string_8806 upper_literals
      transverse_mercator_names set_parameters_def assign_parameter_def utm32_cs_def
      unset_store_def isnan_def)

section \<open>The last matching parameter wins\<close>

lemma last_matching_parameter_None:
  "(last_matching_parameter D P s = None) = (\<forall>i \<in> set P. \<not> matches_slot D i s)"
  by (simp add: last_matching_parameter_def find_None_all)

lemma find_Some_holds: "find Q xs = Some x \<Longrightarrow> Q x \<and> x \<in> set xs"
  by (induction xs) (auto split: if_splits)

lemma last_matching_parameter_Some:
  "last_matching_parameter D P s = Some i \<Longrightarrow> i \<in> set P \<and> matches_slot D i s"
  using find_Some_holds [of "\<lambda>i. matches_slot D i s" "rev P" i]
  by (simp add: last_matching_parameter_def)

lemma last_matching_parameter_split:
  assumes "matches_slot D i s" and "\<forall>i' \<in> set P2. \<not> matches_slot D i' s"
  shows "last_matching_parameter D (P1 @ i # P2) s = Some i"
proof -
  have "find (\<lambda>i. matches_slot D i s) (rev P2) = None"
    using assms(2) by (simp add: find_None_all)
  with assms(1) show ?thesis
    by (simp add: last_matching_parameter_def find_app)
qed

text \<open>
  C2, as the code has it. Whatever the lists, every double holds after the scan the
  value of the last parameter of the list that matches a descriptor pointing to it, and
  its old value when no parameter does: if the list is \<open>P1 @ i # P2\<close>, \<open>i\<close> matches
  and no parameter of \<open>P2\<close> does, the double holds the value of \<open>i\<close>, whatever \<open>P1\<close>
  assigned before, and whether \<open>i\<close> matches by its authority code, by its name or by an
  alias. Let every descriptor whose double holds the sentinel on entry have a parameter
  in the parse tree that matches its code. Then \<^verbatim>\<open>set_parameters\<close> returns false
  exactly when, for every descriptor, the last parameter that matches its double carries
  a value that is a number; and when it returns false it reports nothing.
\<close>

theorem set_parameters_last_match_wins:
  "fst (snd (set_parameters srid proj D mem)) =
     (\<lambda>s. case last_matching_parameter D (parameters proj) s of
             None \<Rightarrow> mem s
           | Some i \<Rightarrow> parameter_value i) \<and>
   (parameters proj = P1 @ i # P2 \<and> matches_slot D i s \<and>
    (\<forall>i' \<in> set P2. \<not> matches_slot D i' s) \<longrightarrow>
      fst (snd (set_parameters srid proj D mem)) s = parameter_value i) \<and>
   (\<not> fst (set_parameters srid proj D mem) \<longrightarrow>
      snd (snd (set_parameters srid proj D mem)) = []) \<and>
   ((\<forall>pj \<in> set D. isnan (mem (snd pj)) \<longrightarrow>
       (\<exists>i \<in> set (parameters proj). parameter_matches i (fst pj))) \<longrightarrow>
      (\<not> fst (set_parameters srid proj D mem)) =
      (\<forall>pj \<in> set D. \<forall>j. last_matching_parameter D (parameters proj) (snd pj) = Some j \<longrightarrow>
         \<not> isnan (parameter_value j)))"
proof -
  let ?P = "parameters proj"
  let ?mem' = "scan_parameters ?P D mem"
  have store: "fst (snd (set_parameters srid proj D mem)) =
      (\<lambda>s. case last_matching_parameter D ?P s of
              None \<Rightarrow> mem s
            | Some i \<Rightarrow> parameter_value i)"
    unfolding set_parameters_store by (rule ext) (rule scan_parameters_at)
  have split: "fst (snd (set_parameters srid proj D mem)) s = parameter_value i"
    if "parameters proj = P1 @ i # P2" and "matches_slot D i s"
      and "\<forall>i' \<in> set P2. \<not> matches_slot D i' s"
    using that last_matching_parameter_split [of D i s P2 P1]
    by (simp add: set_parameters_store scan_parameters_at)
  have quiet: "snd (snd (set_parameters srid proj D mem)) = []"
    if "\<not> fst (set_parameters srid proj D mem)"
    using that by (simp add: set_parameters_find Let_def split: option.splits)
  have success: "(\<not> fst (set_parameters srid proj D mem)) =
      (\<forall>pj \<in> set D. \<forall>j. last_matching_parameter D ?P (snd pj) = Some j \<longrightarrow>
         \<not> isnan (parameter_value j))"
    if matched: "\<forall>pj \<in> set D. isnan (mem (snd pj)) \<longrightarrow>
                   (\<exists>i \<in> set ?P. parameter_matches i (fst pj))"
  proof
    assume "\<not> fst (set_parameters srid proj D mem)"
    then have "\<forall>pj \<in> set D. \<not> isnan (?mem' (snd pj))"
      by (simp add: set_parameters_flag)
    then show "\<forall>pj \<in> set D. \<forall>j. last_matching_parameter D ?P (snd pj) = Some j \<longrightarrow>
                 \<not> isnan (parameter_value j)"
      by (auto simp: scan_parameters_at)
  next
    assume numbers: "\<forall>pj \<in> set D. \<forall>j. last_matching_parameter D ?P (snd pj) = Some j \<longrightarrow>
                       \<not> isnan (parameter_value j)"
    have "\<not> isnan (?mem' (snd pj))" if pj: "pj \<in> set D" for pj
    proof (cases "last_matching_parameter D ?P (snd pj)")
      case None
      then have no: "\<forall>i \<in> set ?P. \<not> matches_slot D i (snd pj)"
        by (simp add: last_matching_parameter_None)
      have "\<not> isnan (mem (snd pj))"
      proof
        assume "isnan (mem (snd pj))"
        with matched pj obtain i where "i \<in> set ?P" and "parameter_matches i (fst pj)"
          by blast
        with pj have "i \<in> set ?P" and "matches_slot D i (snd pj)"
          by (auto simp: matches_slot_def)
        with no show False by blast
      qed
      with None show ?thesis by (simp add: scan_parameters_at)
    next
      case (Some j)
      with numbers pj have "\<not> isnan (parameter_value j)" by blast
      with Some show ?thesis by (simp add: scan_parameters_at)
    qed
    then show "\<not> fst (set_parameters srid proj D mem)"
      by (simp add: set_parameters_flag)
  qed
  show ?thesis
    using store split quiet success by blast
qed

text \<open>
  The descriptor of code 1026 and two parameters: \<^verbatim>\<open>c1\<close>, by name, with a value
  that is not a number, and after it the EPSG code 1026 with the value 1. The last
  matching parameter carries a number: the extraction succeeds and the double holds 1.
\<close>

theorem set_parameters_last_match_wins_witness:
  "\<not> fst (set_parameters 32632
       (utm32_cs\<lparr>parameters := [named_parameter ''c1'' NaN, epsg_parameter [] ''1026'' (Num 1)]\<rparr>)
       [(1026, m_c1)] unset_store) \<and>
   fst (snd (set_parameters 32632
       (utm32_cs\<lparr>parameters := [named_parameter ''c1'' NaN, epsg_parameter [] ''1026'' (Num 1)]\<rparr>)
       [(1026, m_c1)] unset_store)) m_c1 = Num 1"
proof -
  let ?first = "named_parameter ''c1'' NaN"
  let ?last = "epsg_parameter [] ''1026'' (Num 1)"
  let ?proj = "utm32_cs\<lparr>parameters := [?first, ?last]\<rparr>"
  let ?D = "[(1026 :: int, m_c1)]"
  have name: "map_at param_names 1026 = ''c1''"
    by (simp add: map_at_def param_names_def)
  have code: "to_string 1026 = ''1026''"
    by (simp add: to_string_def digit_char_def)
  have first: "parameter_matches ?first 1026"
    by (simp add: named_parameter_matches my_strcasecmp_def name)
  have last: "parameter_matches ?last 1026"
    by (simp add: parameter_matches_def has_epsg_authority_def code_matches_def
        epsg_parameter_def epsg_authority_def my_strcasecmp_def upper_literals code)
  have parameters: "parameters ?proj = [?first] @ ?last # []"
    by (simp add: utm32_cs_def)
  have slot: "matches_slot ?D ?last m_c1"
    using last by (simp add: matches_slot_def)
  have last_match: "last_matching_parameter ?D [?first, ?last] s =
                      (if s = m_c1 then Some ?last else None)" for s
    using first last
    by (simp add: last_matching_parameter_def matches_slot_def)
  have number: "parameter_value ?last = Num 1"
    by (simp add: epsg_parameter_def)
  note last_wins =
    set_parameters_last_match_wins
      [of 32632 ?proj ?D unset_store "[?first]" ?last "[]" m_c1]
  have matched: "\<forall>pj \<in> set ?D. isnan (unset_store (snd pj)) \<longrightarrow>
                   (\<exists>i \<in> set (parameters ?proj). parameter_matches i (fst pj))"
    using first by (simp add: parameters)
  have numbers: "\<forall>pj \<in> set ?D. \<forall>j. last_matching_parameter ?D (parameters ?proj) (snd pj) = Some j \<longrightarrow>
                   \<not> isnan (parameter_value j)"
    by (simp add: utm32_cs_def last_match number isnan_def)
  from last_wins matched
  have "(\<not> fst (set_parameters 32632 ?proj ?D unset_store)) =
          (\<forall>pj \<in> set ?D. \<forall>j. last_matching_parameter ?D (parameters ?proj) (snd pj) = Some j \<longrightarrow>
             \<not> isnan (parameter_value j))"
    by blast
  with numbers have success: "\<not> fst (set_parameters 32632 ?proj ?D unset_store)"
    by blast
  have "parameters ?proj = [?first] @ ?last # [] \<and> matches_slot ?D ?last m_c1 \<and>
        (\<forall>i' \<in> set []. \<not> matches_slot ?D i' m_c1)"
    using parameters slot by simp
  with last_wins
  have "fst (snd (set_parameters 32632 ?proj ?D unset_store)) m_c1 = parameter_value ?last"
    by blast
  then have "fst (snd (set_parameters 32632 ?proj ?D unset_store)) m_c1 = Num 1"
    by (simp add: epsg_parameter_def)
  with success show ?thesis by (rule conjI)
qed

text \<open>
  C2 as stated fails. The parameter \<^verbatim>\<open>latitude_of_origin\<close> matches the only
  descriptor of the list, so every mandatory code has a matching parameter; its value is
  not-a-number, the double holds the sentinel after the scan, and \<^verbatim>\<open>set_parameters\<close>
  returns true and reports the parameter missing.
\<close>

theorem set_parameters_last_match_wins_counterexample:
  "parameter_matches (named_parameter ''latitude_of_origin'' NaN) 8801 \<and>
   set_parameters 32632
     (utm32_cs\<lparr>parameters := [named_parameter ''latitude_of_origin'' NaN]\<rparr>)
     [(8801, m_latitude_of_origin)] unset_store =
     (True, unset_store, [ER_SRS_PROJ_PARAMETER_MISSING 32632 ''latitude_of_origin'' 8801])"
  by (simp add: set_parameters_find assign_parameter_eq utm32_cs_def unset_store_def
      isnan_def transverse_mercator_eval fun_upd_idem)

section \<open>Missing mandatory parameters\<close>

text \<open>
  C3: \<^verbatim>\<open>set_parameters\<close> returns true exactly when, after the scan, the double of
  some descriptor holds the not-a-number sentinel. It then reports one diagnostic, which
  carries the SRID, the canonical name and the EPSG code of the first such descriptor of
  the list, and otherwise none. The store it leaves is the store after the scan in both
  cases, so that doubles that were assigned keep their values. The failure is a returned
  flag: the function has no other way out.
\<close>

theorem set_parameters_missing_mandatory:
  "fst (set_parameters srid proj D mem) =
     (\<exists>pj \<in> set D. isnan (fst (snd (set_parameters srid proj D mem)) (snd pj))) \<and>
   fst (snd (set_parameters srid proj D mem)) = scan_parameters (parameters proj) D mem \<and>
   snd (snd (set_parameters srid proj D mem)) =
     (case find (\<lambda>pj. isnan (scan_parameters (parameters proj) D mem (snd pj))) D of
        None \<Rightarrow> []
      | Some pj \<Rightarrow>
          [ER_SRS_PROJ_PARAMETER_MISSING srid (map_at param_names (fst pj)) (fst pj)])"
  by (simp add: set_parameters_store set_parameters_flag set_parameters_diagnostics)

text \<open>
  The Transverse Mercator tree without its \<^verbatim>\<open>false_northing\<close>: the extraction
  fails and reports code 8807 under its name, and \<^verbatim>\<open>false_easting\<close> keeps the
  value it was given.
\<close>

theorem set_parameters_missing_mandatory_witness:
  "fst (set_parameters 32632 (utm32_cs\<lparr>parameters := butlast utm32_parameters\<rparr>)
          Transverse_mercator_srs_params unset_store) \<and>
   snd (snd (set_parameters 32632 (utm32_cs\<lparr>parameters := butlast utm32_parameters\<rparr>)
          Transverse_mercator_srs_params unset_store)) =
     [ER_SRS_PROJ_PARAMETER_MISSING 32632 ''false_northing'' 8807] \<and>
   fst (snd (set_parameters 32632 (utm32_cs\<lparr>parameters := butlast utm32_parameters\<rparr>)
          Transverse_mercator_srs_params unset_store)) m_false_easting = Num 500000"
  using set_parameters_missing_mandatory
    [of 32632 "utm32_cs\<lparr>parameters := butlast utm32_parameters\<rparr>"
        Transverse_mercator_srs_params unset_store]
  by (simp add: set_parameters_find assign_parameter_eq utm32_cs_def utm32_parameters_def
      unset_store_def isnan_def transverse_mercator_eval)

section \<open>The empty alias\<close>

text \<open>
  C10: the alias table has entries for the codes 8823 and 8824 only, and the alias of
  every other code reads as the empty string. So a parsed parameter whose authority name
  is not EPSG and whose name is empty passes the alias test of every descriptor with
  another code, the body of the loop assigns its value to the double of that descriptor,
  and after the inner loop the double of every such descriptor of the list holds the
  value.
\<close>

theorem empty_name_matches_empty_alias:
  "map fst param_aliases = [8823, 8824] \<and>
   map_at param_aliases code =
     (if code = 8823 then ''standard_parallel1''
      else if code = 8824 then ''standard_parallel2'' else []) \<and>
   (code \<noteq> 8823 \<and> code \<noteq> 8824 \<and> \<not> has_epsg_authority i \<and> parameter_name i = [] \<longrightarrow>
      alias_matches i code \<and>
      assign_parameter i (code, s) mem = mem(s := parameter_value i) \<and>
      ((code, s) \<in> set D \<longrightarrow> scan_descriptors i D mem s = parameter_value i))"
proof -
  have table: "map fst param_aliases = [8823, 8824]"
    by (simp add: param_aliases_def)
  have written: "alias_matches i code \<and>
      assign_parameter i (code, s) mem = mem(s := parameter_value i) \<and>
      ((code, s) \<in> set D \<longrightarrow> scan_descriptors i D mem s = parameter_value i)"
    if "code \<noteq> 8823" "code \<noteq> 8824" "\<not> has_epsg_authority i" "parameter_name i = []"
  proof -
    have empty: "alias_matches i code"
      using that by (simp add: alias_matches_def param_aliases_at my_strcasecmp_def c_str_def)
    with that have matches: "parameter_matches i code"
      by (simp add: parameter_matches_def)
    then have "assign_parameter i (code, s) mem = mem(s := parameter_value i)"
      by (simp add: assign_parameter_eq)
    moreover have "scan_descriptors i D mem s = parameter_value i" if "(code, s) \<in> set D"
      using that matches by (force simp: scan_descriptors_at matches_slot_def)
    ultimately show ?thesis using empty by simp
  qed
  show ?thesis
    using table param_aliases_at [of code] written by simp
qed

text \<open>
  A parameter without a name and without an authority clause, scanned against the
  descriptors of Transverse Mercator: each of the five doubles receives its value.
\<close>

theorem empty_name_matches_empty_alias_witness:
  "alias_matches (named_parameter [] (Num 7)) 8806 \<and>
   scan_descriptors (named_parameter [] (Num 7)) Transverse_mercator_srs_params unset_store
     m_false_easting = Num 7 \<and>
   map (scan_descriptors (named_parameter [] (Num 7)) Transverse_mercator_srs_params
          unset_store) (map snd Transverse_mercator_srs_params) =
     [Num 7, Num 7, Num 7, Num 7, Num 7]"
proof -
  let ?i = "named_parameter [] (Num 7)"
  have "(8806::int) \<noteq> 8823 \<and> (8806::int) \<noteq> 8824 \<and> \<not> has_epsg_authority ?i \<and>
        parameter_name ?i = []"
    by (simp add: named_parameter_no_epsg) (simp add: named_parameter_def)
  with empty_name_matches_empty_alias
         [of 8806 ?i m_false_easting unset_store Transverse_mercator_srs_params,
          THEN conjunct2, THEN conjunct2]
  have "alias_matches ?i 8806 \<and>
        assign_parameter ?i (8806, m_false_easting) unset_store =
          unset_store(m_false_easting := parameter_value ?i) \<and>
        ((8806, m_false_easting) \<in> set Transverse_mercator_srs_params \<longrightarrow>
           scan_descriptors ?i Transverse_mercator_srs_params unset_store m_false_easting =
             parameter_value ?i)"
    by (rule mp)
  then have "alias_matches ?i 8806" and
    "scan_descriptors ?i Transverse_mercator_srs_params unset_store m_false_easting = Num 7"
    by (simp_all add: Transverse_mercator_srs_params_def named_parameter_value)
  moreover have "map (scan_descriptors ?i Transverse_mercator_srs_params unset_store)
          (map snd Transverse_mercator_srs_params) = [Num 7, Num 7, Num 7, Num 7, Num 7]"
    by (simp add: Transverse_mercator_srs_params_def assign_parameter_eq
        named_parameter_matches named_parameter_value my_strcasecmp_def upper_literals
        transverse_mercator_names param_aliases_at)
  ultimately show ?thesis by simp
qed

section \<open>The projection factory is total\<close>

text \<open>
  C4: \<^verbatim>\<open>new_projection\<close> has a result for every integer. For the codes of the
  catalogue the objects it returns have, in the order of the catalogue, the classes named
  after the methods; for every other integer, among them 0 and 9999, the object is an
  \<^verbatim>\<open>Unknown_projected_srs\<close>. Whatever the code, the object is the one its
  constructor leaves: every double holds the sentinel and the axes are unspecified.
\<close>

theorem new_projection_total:
  "map (\<lambda>code. dynamic_class (new_projection code)) catalogued_codes = catalogued_classes \<and>
   (epsg_code \<notin> set catalogued_codes \<longrightarrow>
      dynamic_class (new_projection epsg_code) = Unknown_projected_srs) \<and>
   dynamic_class (new_projection 0) = Unknown_projected_srs \<and>
   dynamic_class (new_projection 9999) = Unknown_projected_srs \<and>
   new_projection epsg_code = Projection_srs_ctor (dynamic_class (new_projection epsg_code)) \<and>
   m_parameters (new_projection epsg_code) m = NaN \<and>
   m_linear_unit (new_projection epsg_code) = NaN \<and>
   m_axes (new_projection epsg_code) = [UNSPECIFIED, UNSPECIFIED] \<and>
   m_geographic_srs (new_projection epsg_code) = Geographic_srs_ctor"
proof -
  have "map (\<lambda>code. dynamic_class (new_projection code)) catalogued_codes = catalogued_classes"
    by (simp add: catalogued_codes_def catalogued_classes_def new_projection_def
        Projection_srs_ctor_def)
  moreover have "dynamic_class (new_projection epsg_code) = Unknown_projected_srs"
    if "epsg_code \<notin> set catalogued_codes"
    using that by (simp add: catalogued_codes_def new_projection_def Projection_srs_ctor_def)
  moreover have "dynamic_class (new_projection 0) = Unknown_projected_srs"
    and "dynamic_class (new_projection 9999) = Unknown_projected_srs"
    by (simp_all add: new_projection_def Projection_srs_ctor_def)
  moreover have "m_parameters (new_projection epsg_code) m = NaN"
    and "m_linear_unit (new_projection epsg_code) = NaN"
    and "m_axes (new_projection epsg_code) = [UNSPECIFIED, UNSPECIFIED]"
    and "m_geographic_srs (new_projection epsg_code) = Geographic_srs_ctor"
    by (subst new_projection_ctor, simp add: Projection_srs_ctor_def)+
  ultimately show ?thesis
    using new_projection_ctor [of epsg_code] by simp
qed

text \<open>Code 9807 gives a Transverse Mercator object, code 9814 an unknown projection.\<close>

theorem new_projection_total_witness:
  "dynamic_class (new_projection 9807) = Transverse_mercator_srs \<and>
   dynamic_class (new_projection 9814) = Unknown_projected_srs \<and>
   m_parameters (new_projection 9814) m_scale_factor = NaN"
proof -
  have "(9814::int) \<notin> set catalogued_codes"
    by (simp add: catalogued_codes_def)
  with new_projection_total [of 9814 m_scale_factor]
  have "dynamic_class (new_projection 9814) = Unknown_projected_srs"
    and "m_parameters (new_projection 9814) m_scale_factor = NaN"
    by simp_all
  moreover have "dynamic_class (new_projection 9807) = Transverse_mercator_srs"
    using new_projection_total [of 9807 m_scale_factor]
    by (simp add: catalogued_codes_def catalogued_classes_def)
  ultimately show ?thesis by simp
qed

section \<open>Unrecognised projection authorities\<close>

lemma set_parameters_no_descriptors:
  "set_parameters srid proj [] mem = (False, mem, [])"
  by (simp add: set_parameters_def scan_parameters_no_descriptors)

text \<open>
  C6: when the authority name of the projection clause is not EPSG, or \<^verbatim>\<open>std::stoi\<close>
  throws on its authority code, \<^verbatim>\<open>create_projected_srs\<close> takes the method code 0.
  It returns false and reports nothing, and the object it leaves on the heap is an
  \<^verbatim>\<open>Unknown_projected_srs\<close> whose geographic system is the one
  \<^verbatim>\<open>Geographic_srs::init\<close> builds from the nested tree, with the linear unit and,
  when they are marked valid, the axes of the tree.
\<close>

theorem create_projected_srs_unknown_authority:
  assumes "my_strcasecmp ''EPSG''
             (c_str (authority_name (projection_authority (projection proj)))) \<or>
           stoi (authority_code (projection_authority (projection proj))) = None"
  shows "\<exists>this. create_projected_srs srid proj h =
                  (False, Some (next_address h), snd (heap_new (Projected this) h), []) \<and>
                cells (snd (heap_new (Projected this) h)) (next_address h) =
                  Some (Projected this) \<and>
                dynamic_class this = Unknown_projected_srs \<and>
                m_geographic_srs this =
                  snd (Geographic_srs_init srid (geographic_cs proj) Geographic_srs_ctor) \<and>
                m_semi_major_axis (m_geographic_srs this) =
                  semi_major_axis (spheroid (datum (geographic_cs proj))) \<and>
                m_inverse_flattening (m_geographic_srs this) =
                  inverse_flattening (spheroid (datum (geographic_cs proj))) \<and>
                m_prime_meridian (m_geographic_srs this) =
                  longitude (prime_meridian (geographic_cs proj)) \<and>
                m_angular_unit (m_geographic_srs this) =
                  conversion_factor (angular_unit (geographic_cs proj)) \<and>
                m_linear_unit this = conversion_factor (linear_unit proj) \<and>
                m_axes this =
                  (if axes_valid (projected_axes proj)
                   then [direction (axes_x (projected_axes proj)),
                         direction (axes_y (projected_axes proj))]
                   else [UNSPECIFIED, UNSPECIFIED])"
proof -
  let ?code = "if \<not> my_strcasecmp ''EPSG''
                      (c_str (authority_name (projection_authority (projection proj))))
               then (case stoi (authority_code (projection_authority (projection proj))) of
                       Some v \<Rightarrow> v
                     | None \<Rightarrow> 0)
               else 0"
  have code: "?code = 0"
    using assms by auto
  have unknown: "dynamic_class (new_projection 0) = Unknown_projected_srs"
    by (simp add: new_projection_def Projection_srs_ctor_def)
  let ?obj = "fst (snd (init_virtual srid proj (new_projection 0)))"
  have created: "create_projected_srs srid proj h =
          (fst (init_virtual srid proj (new_projection 0)), Some (next_address h),
           snd (heap_new (Projected ?obj) h),
           snd (snd (init_virtual srid proj (new_projection 0))))"
    using code by (simp add: create_projected_srs_eq Let_def)
  have init: "init_virtual srid proj (new_projection 0) =
     (False,
      (Projection_srs_ctor Unknown_projected_srs)
        \<lparr>m_geographic_srs :=
           snd (Geographic_srs_init srid (geographic_cs proj) Geographic_srs_ctor),
         m_linear_unit := conversion_factor (linear_unit proj),
         m_axes :=
           (if axes_valid (projected_axes proj)
            then [direction (axes_x (projected_axes proj)),
                  direction (axes_y (projected_axes proj))]
            else [UNSPECIFIED, UNSPECIFIED]),
         m_parameters := unset_store\<rparr>,
      [])"
    by (simp add: init_virtual_new_projection unknown class_params_def
        set_parameters_no_descriptors scan_parameters_no_descriptors)
  have "create_projected_srs srid proj h =
          (False, Some (next_address h), snd (heap_new (Projected ?obj) h), [])"
    using created init by simp
  moreover have "cells (snd (heap_new (Projected ?obj) h)) (next_address h) =
                   Some (Projected ?obj)"
    by (simp add: heap_new_cells)
  moreover have "dynamic_class ?obj = Unknown_projected_srs"
    and "m_geographic_srs ?obj =
           snd (Geographic_srs_init srid (geographic_cs proj) Geographic_srs_ctor)"
    and "m_linear_unit ?obj = conversion_factor (linear_unit proj)"
    and "m_axes ?obj =
           (if axes_valid (projected_axes proj)
            then [direction (axes_x (projected_axes proj)),
                  direction (axes_y (projected_axes proj))]
            else [UNSPECIFIED, UNSPECIFIED])"
    by (simp_all add: init Projection_srs_ctor_fields)
  moreover have
    "m_semi_major_axis (snd (Geographic_srs_init srid (geographic_cs proj) Geographic_srs_ctor)) =
       semi_major_axis (spheroid (datum (geographic_cs proj)))"
    "m_inverse_flattening (snd (Geographic_srs_init srid (geographic_cs proj) Geographic_srs_ctor)) =
       inverse_flattening (spheroid (datum (geographic_cs proj)))"
    "m_prime_meridian (snd (Geographic_srs_init srid (geographic_cs proj) Geographic_srs_ctor)) =
       longitude (prime_meridian (geographic_cs proj))"
    "m_angular_unit (snd (Geographic_srs_init srid (geographic_cs proj) Geographic_srs_ctor)) =
       conversion_factor (angular_unit (geographic_cs proj))"
    by (simp_all add: Geographic_srs_init_object Geographic_srs_ctor_lengths)
  ultimately show ?thesis
    by (intro exI [of _ ?obj]) simp
qed

text \<open>
  The Transverse Mercator tree with the projection authority ESRI, and with the authority
  EPSG and the code \<^verbatim>\<open>ABC\<close>: both give an unknown projection with the linear unit of
  the tree.
\<close>

theorem create_projected_srs_unknown_authority_witness:
  "(\<exists>this. create_projected_srs 32632
       (utm32_cs\<lparr>projection := \<lparr>projection_authority =
          \<lparr>authority_name = ''ESRI'', authority_code = ''9807''\<rparr>\<rparr>\<rparr>) empty_heap =
       (False, Some 0, snd (heap_new (Projected this) empty_heap), []) \<and>
     dynamic_class this = Unknown_projected_srs \<and> m_linear_unit this = Num 1) \<and>
   (\<exists>this. create_projected_srs 32632
       (utm32_cs\<lparr>projection := \<lparr>projection_authority = epsg_authority ''ABC''\<rparr>\<rparr>) empty_heap =
       (False, Some 0, snd (heap_new (Projected this) empty_heap), []) \<and>
     dynamic_class this = Unknown_projected_srs \<and> m_linear_unit this = Num 1)"
proof -
  let ?esri = "utm32_cs\<lparr>projection := \<lparr>projection_authority =
                 \<lparr>authority_name = ''ESRI'', authority_code = ''9807''\<rparr>\<rparr>\<rparr>"
  let ?abc = "utm32_cs\<lparr>projection := \<lparr>projection_authority = epsg_authority ''ABC''\<rparr>\<rparr>"
  have esri: "my_strcasecmp ''EPSG''
                (c_str (authority_name (projection_authority (projection ?esri)))) \<or>
              stoi (authority_code (projection_authority (projection ?esri))) = None"
    by (simp add: my_strcasecmp_def upper_literals)
  have abc: "my_strcasecmp ''EPSG''
               (c_str (authority_name (projection_authority (projection ?abc)))) \<or>
             stoi (authority_code (projection_authority (projection ?abc))) = None"
    by (simp add: epsg_authority_def stoi_def c_str_def isspace_def isdigit_def)
  have 1: "\<exists>this. create_projected_srs 32632 ?esri empty_heap =
       (False, Some 0, snd (heap_new (Projected this) empty_heap), []) \<and>
     dynamic_class this = Unknown_projected_srs \<and> m_linear_unit this = Num 1"
    using create_projected_srs_unknown_authority [OF esri, of 32632 empty_heap]
    by (auto simp: empty_heap_def utm32_cs_def)
  have 2: "\<exists>this. create_projected_srs 32632 ?abc empty_heap =
       (False, Some 0, snd (heap_new (Projected this) empty_heap), []) \<and>
     dynamic_class this = Unknown_projected_srs \<and> m_linear_unit this = Num 1"
    using create_projected_srs_unknown_authority [OF abc, of 32632 empty_heap]
    by (auto simp: empty_heap_def utm32_cs_def)
  from 1 2 show ?thesis by (rule conjI)
qed

section \<open>The orchestrator\<close>

lemma parse_wkt_no_text:
  "wkt = None \<or> wkt = Some [] \<Longrightarrow>
     parse_wkt wp srid wkt result h = (True, result, h, [ER_SRS_PARSE_ERROR srid])"
  by (auto simp: parse_wkt_def)

lemma parse_wkt_parser_failure:
  assumes "wkt \<noteq> []" and "wp srid wkt = (True, cs, parser_diags)"
  shows "parse_wkt wp srid (Some wkt) result h = (True, result, h, parser_diags)"
  using assms by (simp add: parse_wkt_def)

lemma parse_wkt_geographic:
  assumes "wkt \<noteq> []" and "wp srid wkt = (False, Geographic_cs_node geog, parser_diags)"
  shows "parse_wkt wp srid (Some wkt) result h =
           (False, Some (next_address h),
            snd (heap_new (Geographic (snd (Geographic_srs_init srid geog Geographic_srs_ctor))) h),
            parser_diags)"
  using assms by (simp add: parse_wkt_def create_geographic_srs_eq delete_on_failure_def)

lemma parse_wkt_projected:
  assumes "wkt \<noteq> []" and "wp srid wkt = (False, Projected_cs_node proj, parser_diags)"
  shows "parse_wkt wp srid (Some wkt) result h =
           (let created = create_projected_srs srid proj h
            in if fst created
               then (True, None,
                     heap_delete (next_address h) (fst (snd (snd created))),
                     parser_diags @ snd (snd (snd created)))
               else (False, Some (next_address h), fst (snd (snd created)),
                     parser_diags @ snd (snd (snd created))))"
  using assms
  by (simp add: parse_wkt_def create_projected_srs_eq delete_on_failure_def Let_def)

lemma create_projected_srs_heap:
  "\<exists>obj. fst (snd (snd (create_projected_srs srid proj h))) = snd (heap_new obj h)"
  by (simp add: create_projected_srs_eq Let_def) blast

text \<open>
  C5: let \<^verbatim>\<open>parse_wkt\<close> return failure, on a heap whose next address is free. Then
  the cells of the heap are those of the heap before the call: the object a builder had
  allocated has been deleted, and nothing else was allocated. The slot \<^verbatim>\<open>*result\<close>
  is null or was not written, so it is null when the caller passed it null, and it never
  holds the address of an object of this call. With a null start pointer or an empty
  span the only effect is the parse error that carries the SRID. When the grammar has
  delivered a tree and a builder fails, the slot is set to null.
\<close>

theorem parse_wkt_failure:
  assumes "fst (parse_wkt wp srid wkt result h)"
    and "cells h (next_address h) = None"
  shows "cells (fst (snd (snd (parse_wkt wp srid wkt result h)))) = cells h \<and>
         (fst (snd (parse_wkt wp srid wkt result h)) = None \<or>
          fst (snd (parse_wkt wp srid wkt result h)) = result) \<and>
         (result = None \<longrightarrow> fst (snd (parse_wkt wp srid wkt result h)) = None) \<and>
         (wkt = None \<or> wkt = Some [] \<longrightarrow>
            parse_wkt wp srid wkt result h = (True, result, h, [ER_SRS_PARSE_ERROR srid])) \<and>
         (wkt \<noteq> None \<and> wkt \<noteq> Some [] \<and> \<not> fst (wp srid (the wkt)) \<longrightarrow>
            fst (snd (parse_wkt wp srid wkt result h)) = None)"
proof (cases "wkt = None \<or> wkt = Some []")
  case True
  then have "parse_wkt wp srid wkt result h = (True, result, h, [ER_SRS_PARSE_ERROR srid])"
    by (rule parse_wkt_no_text)
  with True show ?thesis by auto
next
  case False
  then obtain w where w: "wkt = Some w" "w \<noteq> []" by (cases wkt) auto
  obtain res cs parser_diags where wp: "wp srid w = (res, cs, parser_diags)"
    by (cases "wp srid w") auto
  show ?thesis
  proof (cases res)
    case True
    with w wp have "parse_wkt wp srid wkt r h = (True, r, h, parser_diags)" for r
      by (simp add: parse_wkt_parser_failure)
    with w wp True show ?thesis by simp
  next
    case no_failure: False
    show ?thesis
    proof (cases cs)
      case (Geographic_cs_node geog)
      with w wp no_failure have "\<not> fst (parse_wkt wp srid wkt result h)"
        by (simp add: parse_wkt_geographic)
      with assms(1) show ?thesis by simp
    next
      case (Projected_cs_node proj)
      obtain obj where obj:
        "fst (snd (snd (create_projected_srs srid proj h))) = snd (heap_new obj h)"
        using create_projected_srs_heap [of srid proj h] by blast
      have failed: "fst (create_projected_srs srid proj h)"
        using assms(1) w wp no_failure Projected_cs_node
        by (simp add: parse_wkt_projected Let_def split: if_splits)
      then have "parse_wkt wp srid wkt r h =
              (True, None, heap_delete (next_address h) (snd (heap_new obj h)),
               parser_diags @ snd (snd (snd (create_projected_srs srid proj h))))" for r
        using w wp no_failure Projected_cs_node obj
        by (simp add: parse_wkt_projected Let_def)
      then show ?thesis
        using w delete_new [OF assms(2), of obj] by simp
    qed
  qed
qed

text \<open>
  A call with the null pointer, and a call on the Transverse Mercator tree without its
  \<^verbatim>\<open>false_northing\<close>: both fail, leave the empty heap empty and the slot null.
\<close>

theorem parse_wkt_failure_witness:
  "parse_wkt (delivers (Projected_cs_node utm32_cs)) 32632 None None empty_heap =
     (True, None, empty_heap, [ER_SRS_PARSE_ERROR 32632]) \<and>
   fst (parse_wkt
          (delivers (Projected_cs_node (utm32_cs\<lparr>parameters := butlast utm32_parameters\<rparr>)))
          32632 (Some ''PROJCS'') None empty_heap) \<and>
   cells (fst (snd (snd (parse_wkt
          (delivers (Projected_cs_node (utm32_cs\<lparr>parameters := butlast utm32_parameters\<rparr>)))
          32632 (Some ''PROJCS'') None empty_heap)))) = cells empty_heap \<and>
   fst (snd (parse_wkt
          (delivers (Projected_cs_node (utm32_cs\<lparr>parameters := butlast utm32_parameters\<rparr>)))
          32632 (Some ''PROJCS'') None empty_heap)) = None"
proof -
  let ?proj = "utm32_cs\<lparr>parameters := butlast utm32_parameters\<rparr>"
  let ?wp = "delivers (Projected_cs_node ?proj)"
  have free: "cells empty_heap (next_address empty_heap) = None"
    by (simp add: empty_heap_def)
  have null: "fst (parse_wkt (delivers (Projected_cs_node utm32_cs)) 32632 None None empty_heap)"
    by (simp add: parse_wkt_def)
  have first: "parse_wkt (delivers (Projected_cs_node utm32_cs)) 32632 None None empty_heap =
     (True, None, empty_heap, [ER_SRS_PARSE_ERROR 32632])"
    using parse_wkt_failure [OF null free] by simp
  have code: "stoi (authority_code (projection_authority (projection ?proj))) = Some 9807"
    by (simp add: utm32_cs_def epsg_authority_def stoi_def c_str_def isspace_def isdigit_def
        digits_value_def)
  have epsg: "\<not> my_strcasecmp ''EPSG''
                 (c_str (authority_name (projection_authority (projection ?proj))))"
    by (simp add: utm32_cs_def epsg_authority_def my_strcasecmp_def upper_literals)
  have cls: "dynamic_class (new_projection 9807) = Transverse_mercator_srs"
    by (simp add: new_projection_def Projection_srs_ctor_def)
  have missing: "fst (set_parameters 32632 ?proj Transverse_mercator_srs_params unset_store)"
    by (simp add: set_parameters_find assign_parameter_eq utm32_cs_def utm32_parameters_def
        unset_store_def isnan_def transverse_mercator_eval)
  have "fst (create_projected_srs 32632 ?proj empty_heap)"
    using code epsg missing
    by (simp add: create_projected_srs_eq init_virtual_new_projection cls class_params_def)
  moreover have "?wp 32632 ''PROJCS'' = (False, Projected_cs_node ?proj, [])"
    by (simp add: delivers_def)
  ultimately have fails: "fst (parse_wkt ?wp 32632 (Some ''PROJCS'') None empty_heap)"
    by (simp add: parse_wkt_projected Let_def)
  show ?thesis
    using first fails parse_wkt_failure [OF fails free] by simp
qed

section \<open>The invariant of the objects that are returned\<close>









section \<open>Transverse Mercator, end to end\<close>

lemma matches_slot_by_name:
  assumes "\<not> has_epsg_authority i"
  shows "matches_slot D i s =
           matches_slot D (named_parameter (parameter_name i) (parameter_value i)) s"
proof -
  have "parameter_matches i code =
          parameter_matches (named_parameter (parameter_name i) (parameter_value i)) code"
    for code
    using assms
    by (simp add: named_parameter_matches)
       (simp add: parameter_matches_def name_matches_def alias_matches_def)
  then show ?thesis
    by (simp add: matches_slot_def)
qed

text \<open>
  When the parameters are supplied by name, a double holds the value \<open>v\<close> after the scan
  if some supplied name matches a descriptor that points to it and every supplied name
  that does carries \<open>v\<close>.
\<close>

lemma scan_parameters_supplied:
  assumes "supplies_by_name P nvs"
    and "\<forall>nv \<in> set nvs. matches_slot D (named_parameter (fst nv) (snd nv)) s \<longrightarrow> snd nv = v"
    and "\<exists>nv \<in> set nvs. matches_slot D (named_parameter (fst nv) (snd nv)) s"
  shows "scan_parameters P D mem s = v"
proof -
  have no_epsg: "\<not> has_epsg_authority i" if "i \<in> set P" for i
    using assms(1) that by (simp add: supplies_by_name_def)
  have supplied: "(parameter_name i, parameter_value i) \<in> set nvs" if "i \<in> set P" for i
    using assms(1) that by (auto simp: supplies_by_name_def)
  obtain nv where nv: "nv \<in> set nvs"
    "matches_slot D (named_parameter (fst nv) (snd nv)) s"
    using assms(3) by blast
  then have "nv \<in> (\<lambda>i. (parameter_name i, parameter_value i)) ` set P"
    using assms(1) by (simp add: supplies_by_name_def)
  then obtain i where i: "i \<in> set P" "(parameter_name i, parameter_value i) = nv"
    by (auto simp: image_iff)
  then have "matches_slot D i s"
    using nv(2) matches_slot_by_name [OF no_epsg, of i D s] by auto
  with i(1) have "last_matching_parameter D P s \<noteq> None"
    by (auto simp: last_matching_parameter_None)
  then obtain j where j: "last_matching_parameter D P s = Some j" by auto
  then have "j \<in> set P" and "matches_slot D j s"
    using last_matching_parameter_Some [of D P s j] by simp_all
  then have "(parameter_name j, parameter_value j) \<in> set nvs"
    and "matches_slot D (named_parameter (parameter_name j) (parameter_value j)) s"
    using supplied [of j] matches_slot_by_name [OF no_epsg, of j D s] by simp_all
  with assms(2) have "parameter_value j = v" by force
  with j show ?thesis by (simp add: scan_parameters_at)
qed

lemma transverse_mercator_supplied:
  assumes "supplies_by_name P utm32_values"
  shows "scan_parameters P Transverse_mercator_srs_params mem m_latitude_of_origin = Num 0"
    and "scan_parameters P Transverse_mercator_srs_params mem m_longitude_of_origin = Num 9"
    and "scan_parameters P Transverse_mercator_srs_params mem m_scale_factor = Num 0.9996"
    and "scan_parameters P Transverse_mercator_srs_params mem m_false_easting = Num 500000"
    and "scan_parameters P Transverse_mercator_srs_params mem m_false_northing = Num 0"
  by (rule scan_parameters_supplied [OF assms];
      simp add: utm32_values_def matches_slot_def transverse_mercator_eval)+

text \<open>
  C8: let the grammar deliver a projected tree whose projection authority is EPSG with a
  code that reads 9807 and whose parameters supply, by name,
  \<^verbatim>\<open>latitude_of_origin\<close> 0, \<^verbatim>\<open>central_meridian\<close> 9, \<^verbatim>\<open>scale_factor\<close> 0.9996,
  \<^verbatim>\<open>false_easting\<close> 500000 and \<^verbatim>\<open>false_northing\<close> 0. Then, for every SRID,
  nested geographic tree, linear unit and axes, \<^verbatim>\<open>parse_wkt\<close> returns false and
  leaves in the slot the address of a Transverse Mercator object whose five doubles hold
  these values.
\<close>

theorem parse_wkt_transverse_mercator:
  assumes "wkt \<noteq> []"
    and "wp srid wkt = (False, Projected_cs_node proj, parser_diags)"
    and "\<not> my_strcasecmp ''EPSG''
             (c_str (authority_name (projection_authority (projection proj))))"
    and "stoi (authority_code (projection_authority (projection proj))) = Some 9807"
    and "supplies_by_name (parameters proj) utm32_values"
  shows "\<exists>obj. parse_wkt wp srid (Some wkt) result h =
                 (False, Some (next_address h), snd (heap_new (Projected obj) h),
                  parser_diags) \<and>
               cells (snd (heap_new (Projected obj) h)) (next_address h) =
                 Some (Projected obj) \<and>
               dynamic_class obj = Transverse_mercator_srs \<and>
               m_parameters obj m_latitude_of_origin = Num 0 \<and>
               m_parameters obj m_longitude_of_origin = Num 9 \<and>
               m_parameters obj m_scale_factor = Num 0.9996 \<and>
               m_parameters obj m_false_easting = Num 500000 \<and>
               m_parameters obj m_false_northing = Num 0"
proof -
  let ?init = "init_virtual srid proj (new_projection 9807)"
  let ?obj = "fst (snd ?init)"
  let ?mem = "scan_parameters (parameters proj) Transverse_mercator_srs_params unset_store"
  have cls: "dynamic_class (new_projection 9807) = Transverse_mercator_srs"
    by (simp add: new_projection_def Projection_srs_ctor_def)
  have params: "class_params Transverse_mercator_srs = Transverse_mercator_srs_params"
    by (simp add: class_params_def)
  note supplied = transverse_mercator_supplied [OF assms(5), of unset_store]
  have descriptors: "set Transverse_mercator_srs_params =
      {(8801, m_latitude_of_origin), (8802, m_longitude_of_origin), (8805, m_scale_factor),
       (8806, m_false_easting), (8807, m_false_northing)}"
    by (simp add: Transverse_mercator_srs_params_def)
  have "\<forall>pj \<in> set Transverse_mercator_srs_params. \<not> isnan (?mem (snd pj))"
    unfolding descriptors by (simp add: supplied isnan_def)
  then have success: "\<not> fst (set_parameters srid proj Transverse_mercator_srs_params unset_store)"
    by (simp add: set_parameters_flag)
  then have no_diags: "snd (snd (set_parameters srid proj Transverse_mercator_srs_params
      unset_store)) = []"
    by (simp add: set_parameters_find Let_def split: option.splits)
  have init: "fst ?init = False" "snd (snd ?init) = []"
    "dynamic_class ?obj = Transverse_mercator_srs" "m_parameters ?obj = ?mem"
    using success no_diags
    by (simp_all add: init_virtual_new_projection cls params Projection_srs_ctor_fields)
  have "create_projected_srs srid proj h =
          (False, Some (next_address h), snd (heap_new (Projected ?obj) h), [])"
    using assms(3,4) init by (simp add: create_projected_srs_eq)
  then have "parse_wkt wp srid (Some wkt) result h =
          (False, Some (next_address h), snd (heap_new (Projected ?obj) h), parser_diags)"
    using assms(1,2) by (simp add: parse_wkt_projected)
  moreover have "cells (snd (heap_new (Projected ?obj) h)) (next_address h) =
                   Some (Projected ?obj)"
    by (simp add: heap_new_cells)
  ultimately show ?thesis
    using init(3,4) supplied by (intro exI [of _ ?obj]) simp
qed

text \<open>The sample tree of UTM zone 32N, parsed on the empty heap.\<close>

theorem parse_wkt_transverse_mercator_witness:
  "\<exists>obj. parse_wkt (delivers (Projected_cs_node utm32_cs)) 32632 (Some ''PROJCS'') None
           empty_heap =
           (False, Some 0, snd (heap_new (Projected obj) empty_heap), []) \<and>
         dynamic_class obj = Transverse_mercator_srs \<and>
         m_parameters obj m_latitude_of_origin = Num 0 \<and>
         m_parameters obj m_longitude_of_origin = Num 9 \<and>
         m_parameters obj m_scale_factor = Num 0.9996 \<and>
         m_parameters obj m_false_easting = Num 500000 \<and>
         m_parameters obj m_false_northing = Num 0"
proof -
  have nonempty: "''PROJCS'' \<noteq> []" by simp
  have tree: "delivers (Projected_cs_node utm32_cs) 32632 ''PROJCS'' =
                (False, Projected_cs_node utm32_cs, [])"
    by (simp add: delivers_def)
  have epsg: "\<not> my_strcasecmp ''EPSG''
                 (c_str (authority_name (projection_authority (projection utm32_cs))))"
    by (simp add: utm32_cs_def epsg_authority_def my_strcasecmp_def upper_literals)
  have code: "stoi (authority_code (projection_authority (projection utm32_cs))) = Some 9807"
    by (simp add: utm32_cs_def epsg_authority_def stoi_def c_str_def isspace_def isdigit_def
        digits_value_def)
  have supplied: "supplies_by_name (parameters utm32_cs) utm32_values"
    by (simp add: supplies_by_name_def utm32_cs_def utm32_parameters_def utm32_values_def
        named_parameter_no_epsg) (simp add: named_parameter_def)
  show ?thesis
    using parse_wkt_transverse_mercator
      [of "''PROJCS''" "delivers (Projected_cs_node utm32_cs)" 32632 utm32_cs "[]"
          None empty_heap, OF nonempty tree epsg code supplied]
    by (simp add: empty_heap_def) blast
qed

end
